theory Spec2Isabelle
  imports Complex_Main
begin

section \<open>Array values\<close>

text \<open>
  The arrays of \<^verbatim>\<open>ResolveVectors.py\<close> hold IEEE doubles and use NaN as the
  "missing data" value. A double is modelled by its value class: a finite number (an exact
  real: rounding, overflow and the sign of zero are not modelled), one of the two
  infinities, or NaN. The operations below follow IEEE 754 on these classes. A finite value
  divided by zero gives an infinity of the numerator's sign (every zero divisor met in the
  source is a positive zero: it is a sum with an absolute value or a difference
  \<open>x - x\<close>), and \<open>0 / 0\<close> gives NaN; numpy only warns in both cases.
\<close>

datatype fl = Fin real | PInf | NInf | NaN

datatype error = LinAlgError | IndexError | ValueError

fun isnan :: "fl \<Rightarrow> bool" where
  "isnan NaN = True"
| "isnan _ = False"

fun isfinite :: "fl \<Rightarrow> bool" where
  "isfinite (Fin _) = True"
| "isfinite _ = False"

fun fl_neg :: "fl \<Rightarrow> fl" where
  "fl_neg (Fin a) = Fin (- a)"
| "fl_neg PInf = NInf"
| "fl_neg NInf = PInf"
| "fl_neg NaN = NaN"

fun fl_add :: "fl \<Rightarrow> fl \<Rightarrow> fl" where
  "fl_add (Fin a) (Fin b) = Fin (a + b)"
| "fl_add NaN _ = NaN"
| "fl_add _ NaN = NaN"
| "fl_add PInf NInf = NaN"
| "fl_add NInf PInf = NaN"
| "fl_add PInf _ = PInf"
| "fl_add _ PInf = PInf"
| "fl_add NInf _ = NInf"
| "fl_add _ NInf = NInf"

definition fl_sub :: "fl \<Rightarrow> fl \<Rightarrow> fl" where
  "fl_sub a b = fl_add a (fl_neg b)"

text \<open>The sign of a non-NaN value: \<open>-1\<close>, \<open>0\<close> or \<open>1\<close>.\<close>

fun fl_sgn :: "fl \<Rightarrow> int" where
  "fl_sgn (Fin a) = (if a < 0 then -1 else if a = 0 then 0 else 1)"
| "fl_sgn PInf = 1"
| "fl_sgn NInf = -1"
| "fl_sgn NaN = 0"

definition inf_of_sign :: "int \<Rightarrow> fl" where
  "inf_of_sign s = (if s = 0 then NaN else if s < 0 then NInf else PInf)"

fun fl_mul :: "fl \<Rightarrow> fl \<Rightarrow> fl" where
  "fl_mul (Fin a) (Fin b) = Fin (a * b)"
| "fl_mul NaN _ = NaN"
| "fl_mul _ NaN = NaN"
| "fl_mul a b = inf_of_sign (fl_sgn a * fl_sgn b)"

fun fl_div :: "fl \<Rightarrow> fl \<Rightarrow> fl" where
  "fl_div (Fin a) (Fin b) = (if b = 0 then inf_of_sign (fl_sgn (Fin a)) else Fin (a / b))"
| "fl_div NaN _ = NaN"
| "fl_div _ NaN = NaN"
| "fl_div (Fin a) _ = Fin 0"
| "fl_div a (Fin b) = inf_of_sign (fl_sgn a * (if b < 0 then -1 else 1))"
| "fl_div _ _ = NaN"

fun fl_abs :: "fl \<Rightarrow> fl" where
  "fl_abs (Fin a) = Fin \<bar>a\<bar>"
| "fl_abs NaN = NaN"
| "fl_abs _ = PInf"

fun fl_sqrt :: "fl \<Rightarrow> fl" where
  "fl_sqrt (Fin a) = (if a < 0 then NaN else Fin (sqrt a))"
| "fl_sqrt PInf = PInf"
| "fl_sqrt _ = NaN"

definition fl_sq :: "fl \<Rightarrow> fl" where
  "fl_sq a = fl_mul a a"

text \<open>Comparisons: every comparison with NaN is false.\<close>

fun fl_lt :: "fl \<Rightarrow> fl \<Rightarrow> bool" where
  "fl_lt (Fin a) (Fin b) = (a < b)"
| "fl_lt NaN _ = False"
| "fl_lt _ NaN = False"
| "fl_lt _ NInf = False"
| "fl_lt PInf _ = False"
| "fl_lt _ _ = True"

definition fl_gt :: "fl \<Rightarrow> fl \<Rightarrow> bool" where
  "fl_gt a b = fl_lt b a"

definition fl_ge :: "fl \<Rightarrow> fl \<Rightarrow> bool" where
  "fl_ge a b = (\<not> isnan a \<and> \<not> isnan b \<and> \<not> fl_lt a b)"

definition fl_sum :: "fl list \<Rightarrow> fl" where
  "fl_sum xs = foldl fl_add (Fin 0) xs"

section \<open>Matrices and \<^verbatim>\<open>np.linalg.inv\<close>\<close>

type_synonym 'a mat = "'a list list"

definition diagflat :: "fl list \<Rightarrow> fl mat" where
  "diagflat d = map (\<lambda>i. map (\<lambda>j. if i = j then d ! i else Fin 0) [0..<length d]) [0..<length d]"

definition mat_add :: "fl mat \<Rightarrow> fl mat \<Rightarrow> fl mat" where
  "mat_add M N = map (\<lambda>(r, s). map (\<lambda>(a, b). fl_add a b) (zip r s)) (zip M N)"

definition drop_col :: "nat \<Rightarrow> 'a list \<Rightarrow> 'a list" where
  "drop_col j r = take j r @ drop (Suc j) r"

text \<open>The determinant of a square matrix of reals, expanded along its first row.\<close>

function det :: "real mat \<Rightarrow> real" where
  "det [] = 1"
| "det (r # rs) = (\<Sum>j\<leftarrow>[0..<length r]. (- 1) ^ j * r ! j * det (map (drop_col j) rs))"
  by pat_completeness auto
termination
  by (relation "measure length") auto

definition minor :: "real mat \<Rightarrow> nat \<Rightarrow> nat \<Rightarrow> real mat" where
  "minor M i j = map (drop_col j) (drop_col i M)"

definition all_finite :: "fl mat \<Rightarrow> bool" where
  "all_finite M = (\<forall>r\<in>set M. \<forall>a\<in>set r. isfinite a)"

fun the_real :: "fl \<Rightarrow> real" where
  "the_real (Fin a) = a"
| "the_real _ = 0"

text \<open>
  \<^verbatim>\<open>np.linalg.inv\<close> is numpy's, not this repository's. It is modelled by its
  contract on a square matrix of finite entries, in exact arithmetic: the inverse
  (adjugate over determinant), or \<^verbatim>\<open>LinAlgError\<close> when the matrix is singular. What LAPACK
  does with a matrix that holds NaN or an infinity is not fixed by that contract, so it is
  the parameter \<open>inv_nf\<close>: the matrix it returns, or \<open>None\<close> for \<^verbatim>\<open>LinAlgError\<close>.
\<close>

definition linalg_inv :: "(fl mat \<Rightarrow> fl mat option) \<Rightarrow> fl mat \<Rightarrow> error + fl mat" where
  "linalg_inv inv_nf M =
     (if all_finite M then
        (let R = map (map the_real) M; n = length R; d = det R in
         if d = 0 then Inl LinAlgError
         else Inr (map (\<lambda>i. map (\<lambda>j. Fin ((- 1) ^ (i + j) * det (minor R j i) / d)) [0..<n])
                    [0..<n]))
      else (case inv_nf M of None \<Rightarrow> Inl LinAlgError | Some N \<Rightarrow> Inr N))"

section \<open>\<^verbatim>\<open>vvels\<close>: the Bayesian inversion\<close>

text \<open>
  A row of the k-vector array \<^verbatim>\<open>A\<close> and the prior \<^verbatim>\<open>cov\<close> have three components (the
  apex axes); they are triples, so the \<^verbatim>\<open>einsum\<close> subscripts of \<^verbatim>\<open>vvels\<close> always agree on
  the size 3.
\<close>

type_synonym vec3 = "fl \<times> fl \<times> fl"

definition vec3_list :: "vec3 \<Rightarrow> fl list" where
  "vec3_list v = (case v of (a, b, c) \<Rightarrow> [a, b, c])"

text \<open>Boolean-mask indexing \<^verbatim>\<open>a[finite]\<close>, for a mask as long as the array.\<close>

definition mask :: "bool list \<Rightarrow> 'a list \<Rightarrow> 'a list" where
  "mask m xs = map snd (filter fst (zip m xs))"

text \<open>\<^verbatim>\<open>einsum('jk,kl,ml->jm', A, S, B)\<close>: the sum over \<open>k\<close> and \<open>l\<close> of the triple products.\<close>

definition einsum_jk_kl_ml :: "fl mat \<Rightarrow> fl mat \<Rightarrow> fl mat \<Rightarrow> fl mat" where
  "einsum_jk_kl_ml A S B =
     map (\<lambda>j. map (\<lambda>m.
       fl_sum (concat (map (\<lambda>k. map (\<lambda>l.
         fl_mul (fl_mul (A ! j ! k) (S ! k ! l)) (B ! m ! l)) [0..<length S]) [0..<length S])))
       [0..<length B]) [0..<length A]"

text \<open>\<^verbatim>\<open>einsum('jk,lk,lm,m->j', S, A, I, v)\<close>.\<close>

definition einsum_jk_lk_lm_m :: "fl mat \<Rightarrow> fl mat \<Rightarrow> fl mat \<Rightarrow> fl list \<Rightarrow> fl list" where
  "einsum_jk_lk_lm_m S A I v =
     map (\<lambda>j.
       fl_sum (concat (map (\<lambda>k. concat (map (\<lambda>l. map (\<lambda>m.
         fl_mul (fl_mul (fl_mul (S ! j ! k) (A ! l ! k)) (I ! l ! m)) (v ! m))
         [0..<length v]) [0..<length A])) [0..<length S])))
       [0..<length S]"

text \<open>\<^verbatim>\<open>einsum('kj,kl,lm->jm', A, E, B)\<close> for \<open>A\<close> and \<open>B\<close> with three columns.\<close>

definition einsum_kj_kl_lm :: "fl mat \<Rightarrow> fl mat \<Rightarrow> fl mat \<Rightarrow> fl mat" where
  "einsum_kj_kl_lm A E B =
     map (\<lambda>j. map (\<lambda>m.
       fl_sum (concat (map (\<lambda>k. map (\<lambda>l.
         fl_mul (fl_mul (A ! k ! j) (E ! k ! l)) (B ! l ! m)) [0..<length B]) [0..<length A])))
       [0..<3]) [0..<3]"

definition nan3 :: "fl list" where
  "nan3 = [NaN, NaN, NaN]"

definition nan33 :: "fl mat" where
  "nan33 = [nan3, nan3, nan3]"

text \<open>
  The body of the \<^verbatim>\<open>try\<close> block: the three statements in order, stopping at the first
  \<^verbatim>\<open>LinAlgError\<close>.
\<close>

definition vvels_try ::
  "(fl mat \<Rightarrow> fl mat option) \<Rightarrow> fl list \<Rightarrow> fl list \<Rightarrow> fl mat \<Rightarrow> fl list \<Rightarrow> error + (fl list \<times> fl mat)"
where
  "vvels_try inv_nf vlos dvlos A cov =
     (let SigmaE = diagflat (map fl_sq dvlos);
          SigmaV = diagflat cov in
      case linalg_inv inv_nf (mat_add (einsum_jk_kl_ml A SigmaV A) SigmaE) of
        Inl e \<Rightarrow> Inl e
      | Inr I \<Rightarrow>
          (let V = einsum_jk_lk_lm_m SigmaV A I vlos in
           case linalg_inv inv_nf SigmaE of
             Inl e \<Rightarrow> Inl e
           | Inr SigmaE_inv \<Rightarrow>
               (case linalg_inv inv_nf SigmaV of
                  Inl e \<Rightarrow> Inl e
                | Inr SigmaV_inv \<Rightarrow>
                    (case linalg_inv inv_nf
                            (mat_add (einsum_kj_kl_lm A SigmaE_inv A) SigmaV_inv) of
                       Inl e \<Rightarrow> Inl e
                     | Inr SigV \<Rightarrow> Inr (V, SigV)))))"

text \<open>
  \<^verbatim>\<open>vvels(vlos, dvlos, A, cov, minnumpoints)\<close>. The mask \<^verbatim>\<open>finite\<close> is taken from \<^verbatim>\<open>vlos\<close>
  alone; indexing \<^verbatim>\<open>dvlos\<close> or \<^verbatim>\<open>A\<close> with a mask of another length raises
  \<^verbatim>\<open>IndexError\<close>. Only \<^verbatim>\<open>LinAlgError\<close> is caught.
\<close>

definition vvels ::
  "(fl mat \<Rightarrow> fl mat option) \<Rightarrow> fl list \<Rightarrow> fl list \<Rightarrow> vec3 list \<Rightarrow> vec3 \<Rightarrow> int
     \<Rightarrow> error + (fl list \<times> fl mat)"
where
  "vvels inv_nf vlos dvlos A cov minnumpoints =
     (let finite = map isfinite vlos in
      if length dvlos \<noteq> length vlos \<or> length A \<noteq> length vlos then Inl IndexError
      else
        (let vlos' = mask finite vlos;
             dvlos' = mask finite dvlos;
             A' = map vec3_list (mask finite A);
             r = (case vvels_try inv_nf vlos' dvlos' A' (vec3_list cov) of
                    Inl LinAlgError \<Rightarrow> Inr (nan3, nan33)
                  | Inl e \<Rightarrow> Inl e
                  | Inr p \<Rightarrow> Inr p)
         in case r of
              Inl e \<Rightarrow> Inl e
            | Inr p \<Rightarrow>
                if int (length (filter id finite)) < minnumpoints then Inr (nan3, nan33)
                else Inr p))"

section \<open>\<^verbatim>\<open>filter_data\<close>\<close>

text \<open>
  \<^verbatim>\<open>read_data\<close> gives \<^verbatim>\<open>vlos\<close>, \<^verbatim>\<open>dvlos\<close> and \<^verbatim>\<open>ne\<close> the shape (records, gates) and \<^verbatim>\<open>alt\<close>
  the length (gates): a list of rows, one row per time record. Arrays of any other shape
  are rejected here (numpy would raise, or broadcast an axis of length one).
\<close>

definition has_shape :: "nat \<Rightarrow> nat \<Rightarrow> 'a mat \<Rightarrow> bool" where
  "has_shape n m M = (length M = n \<and> (\<forall>r\<in>set M. length r = m))"

text \<open>\<^verbatim>\<open>a[np.where(cond)] = np.nan\<close> for a two-dimensional condition \<open>P\<close> on (record, gate).\<close>

definition nan_where :: "(nat \<Rightarrow> nat \<Rightarrow> bool) \<Rightarrow> fl mat \<Rightarrow> fl mat" where
  "nan_where P M =
     map (\<lambda>t. map (\<lambda>g. if P t g then NaN else M ! t ! g) [0..<length (M ! t)]) [0..<length M]"

text \<open>
  \<^verbatim>\<open>a[I] = np.nan\<close> where \<^verbatim>\<open>I = np.where(cond)\<close> for a condition on a one-dimensional array:
  \<^verbatim>\<open>I\<close> is a one-element tuple holding an index array, and a two-dimensional \<^verbatim>\<open>a\<close>
  indexed by it is indexed along its first axis. Every row named in \<^verbatim>\<open>I\<close> is set to NaN;
  an index that is not a row of \<^verbatim>\<open>a\<close> raises \<^verbatim>\<open>IndexError\<close>.
\<close>

definition nan_rows :: "nat list \<Rightarrow> fl mat \<Rightarrow> error + fl mat" where
  "nan_rows I M =
     (if \<exists>i\<in>set I. length M \<le> i then Inl IndexError
      else Inr (nan_where (\<lambda>t g. t \<in> set I) M))"

definition filter_data ::
  "real \<Rightarrow> real \<Rightarrow> real \<Rightarrow> real \<Rightarrow> real \<times> real \<times> real \<times> real \<Rightarrow> fl mat \<Rightarrow> fl list \<Rightarrow>
     fl mat \<Rightarrow> fl mat \<Rightarrow> error + (fl mat \<times> fl mat)"
where
  "filter_data chirp neMin minalt maxalt ppp ne alt vlos dvlos =
     (case ppp of (p0, p1, p2, p3) \<Rightarrow>
      if \<not> (has_shape (length vlos) (length alt) vlos \<and> has_shape (length vlos) (length alt) dvlos
             \<and> has_shape (length vlos) (length alt) ne)
      then Inl ValueError
      else
        (let vlos1 = map (map (\<lambda>v. fl_add v (Fin chirp))) vlos;
             low = (\<lambda>t g. fl_lt (ne ! t ! g) (Fin neMin));
             vlos2 = nan_where low vlos1;
             dvlos2 = nan_where low dvlos;
             I = filter (\<lambda>g. fl_lt (alt ! g) (Fin (minalt * 1000))
                             \<or> fl_gt (alt ! g) (Fin (maxalt * 1000))) [0..<length alt]
         in case nan_rows I vlos2 of
              Inl e \<Rightarrow> Inl e
            | Inr vlos3 \<Rightarrow>
                (case nan_rows I dvlos2 of
                   Inl e \<Rightarrow> Inl e
                 | Inr dvlos3 \<Rightarrow>
                     (let fracerrs = (\<lambda>t g. fl_div (fl_abs (dvlos3 ! t ! g))
                                           (fl_add (fl_abs (vlos3 ! t ! g)) (Fin p0)));
                          abserrs = (\<lambda>t g. fl_abs (dvlos3 ! t ! g));
                          bad = (\<lambda>t g. fl_gt (fracerrs t g) (Fin p1) \<and> fl_gt (abserrs t g) (Fin p3))
                      in Inr (nan_where bad vlos3, nan_where bad dvlos3)))))"

section \<open>\<^verbatim>\<open>transform\<close>\<close>

text \<open>Sequencing of computations that may raise.\<close>

definition ebind :: "error + 'a \<Rightarrow> ('a \<Rightarrow> error + 'b) \<Rightarrow> error + 'b" where
  "ebind m f = (case m of Inl e \<Rightarrow> Inl e | Inr x \<Rightarrow> f x)"

text \<open>\<^verbatim>\<open>a[np.isfinite(a)]\<close>: the finite entries, in order, as reals.\<close>

definition finite_part :: "fl list \<Rightarrow> real list" where
  "finite_part xs = List.map_filter (\<lambda>x. case x of Fin a \<Rightarrow> Some a | _ \<Rightarrow> None) xs"

text \<open>
  numpy's broadcasting of one-dimensional arrays: an array of length one is repeated to the
  common length of the others; any other disagreement of lengths raises \<^verbatim>\<open>ValueError\<close>.
\<close>

definition stretch :: "nat \<Rightarrow> 'a list \<Rightarrow> 'a list" where
  "stretch n xs = (if length xs = 1 \<and> n \<noteq> 1 then replicate n (hd xs) else xs)"

definition broadcast2 :: "'a list \<Rightarrow> 'b list \<Rightarrow> error + ('a \<times> 'b) list" where
  "broadcast2 xs ys =
     (if length xs = length ys then Inr (zip xs ys)
      else if length xs = 1 then Inr (zip (stretch (length ys) xs) ys)
      else if length ys = 1 then Inr (zip xs (stretch (length xs) ys))
      else Inl ValueError)"

definition broadcast3 :: "'a list \<Rightarrow> 'b list \<Rightarrow> 'c list \<Rightarrow> error + ('a \<times> 'b \<times> 'c) list" where
  "broadcast3 xs ys zs =
     ebind (broadcast2 ys zs) (\<lambda>yz. broadcast2 xs yz)"

text \<open>
  \<^verbatim>\<open>np.insert(a, idx, v)\<close> along the gate axis, for a sequence \<^verbatim>\<open>idx\<close> of indices into the
  array \<^verbatim>\<open>a\<close> as it is before the insertion: one \<^verbatim>\<open>v\<close> is put before position \<open>p\<close> for every
  occurrence of \<open>p\<close> in \<^verbatim>\<open>idx\<close> (\<open>p = len(a)\<close> appends). An index beyond \<open>len(a)\<close> raises
  \<^verbatim>\<open>IndexError\<close>.
\<close>

definition np_insert :: "'a list \<Rightarrow> nat list \<Rightarrow> 'a \<Rightarrow> error + 'a list" where
  "np_insert a idx v =
     (if \<exists>p\<in>set idx. length a < p then Inl IndexError
      else Inr (concat (map (\<lambda>p. replicate (count_list idx p) v @ [a ! p]) [0..<length a])
                @ replicate (count_list idx (length a)) v))"

text \<open>
  The geomagnetic model (apexpy's \<^verbatim>\<open>Apex\<close>) is a collaborator, not part of the repository. It
  is the pair of parameters \<open>geo2apex\<close> and \<open>basevectors_apex\<close>, each taking the epoch (the
  start of the first time record) and one finite position (latitude, longitude, altitude in
  km) and returning finite numbers: the apex latitude and longitude, and the base vectors
  \<open>d1\<close>, \<open>d2\<close>, \<open>d3\<close> in (east, north, up) components. The model evaluates them elementwise
  over its broadcast array arguments.
\<close>

type_synonym rvec3 = "real \<times> real \<times> real"

type_synonym geo2apex_fn = "real \<Rightarrow> real \<Rightarrow> real \<Rightarrow> real \<Rightarrow> real \<times> real"

type_synonym basevectors_fn = "real \<Rightarrow> real \<Rightarrow> real \<Rightarrow> real \<Rightarrow> rvec3 \<times> rvec3 \<times> rvec3"

definition fin3 :: "rvec3 \<Rightarrow> vec3" where
  "fin3 v = (case v of (a, b, c) \<Rightarrow> (Fin a, Fin b, Fin c))"

definition nanvec :: vec3 where
  "nanvec = (NaN, NaN, NaN)"

text \<open>The inner product of two triples, as \<^verbatim>\<open>einsum\<close> sums it, and \<^verbatim>\<open>np.cross\<close>.\<close>

definition dot3 :: "vec3 \<Rightarrow> vec3 \<Rightarrow> fl" where
  "dot3 u v = (case (u, v) of ((u1, u2, u3), (v1, v2, v3)) \<Rightarrow>
     fl_sum [fl_mul u1 v1, fl_mul u2 v2, fl_mul u3 v3])"

definition cross3 :: "vec3 \<Rightarrow> vec3 \<Rightarrow> vec3" where
  "cross3 u v = (case (u, v) of ((u1, u2, u3), (v1, v2, v3)) \<Rightarrow>
     (fl_sub (fl_mul u2 v3) (fl_mul u3 v2),
      fl_sub (fl_mul u3 v1) (fl_mul u1 v3),
      fl_sub (fl_mul u1 v2) (fl_mul u2 v1)))"

text \<open>\<^verbatim>\<open>np.array([ke, kn, kz]).T\<close>: the rows of three arrays of one length.\<close>

definition stack3 :: "fl list \<Rightarrow> fl list \<Rightarrow> fl list \<Rightarrow> error + vec3 list" where
  "stack3 ke kn kz =
     (if length ke = length kn \<and> length kn = length kz then Inr (zip ke (zip kn kz))
      else Inl ValueError)"

record transform_out =
  self_mlat :: "fl list"
  self_mlon :: "fl list"
  self_A :: "vec3 list"
  self_D :: "fl list"

text \<open>
  \<^verbatim>\<open>replace_nans\<close>: the \<open>i\<close>-th NaN of \<^verbatim>\<open>alt\<close>, at position \<open>r\<close>, gives the index \<open>r - i\<close>.
  With no NaN in \<^verbatim>\<open>alt\<close> the array is empty and \<^verbatim>\<open>np.insert\<close> inserts nothing (the numpy
  of the code's time casts the empty array of floats to indices).
\<close>

definition replace_nans_of :: "fl list \<Rightarrow> nat list" where
  "replace_nans_of alt =
     map (\<lambda>(i, r). r - i) (enumerate 0 (filter (\<lambda>r. isnan (alt ! r)) [0..<length alt]))"

text \<open>
  \<^verbatim>\<open>transform\<close>. The arrays \<^verbatim>\<open>d1\<close>, \<^verbatim>\<open>d2\<close>, \<^verbatim>\<open>d3\<close> of shape (3, gates) are lists of one triple
  per gate, so that \<^verbatim>\<open>np.insert(d1, replace_nans, np.nan, axis=1)\<close> inserts triples of NaN.
  \<^verbatim>\<open>einsum('ij,ijk->ik', kvec, d)\<close> pairs the rows of \<^verbatim>\<open>kvec\<close> and \<^verbatim>\<open>d\<close> by broadcasting.
\<close>

definition transform ::
  "geo2apex_fn \<Rightarrow> basevectors_fn \<Rightarrow> (real \<times> real) list \<Rightarrow> fl list \<Rightarrow> fl list \<Rightarrow> fl list \<Rightarrow>
     fl list \<Rightarrow> fl list \<Rightarrow> fl list \<Rightarrow> error + transform_out"
where
  "transform geo2apex basevectors_apex time lat lon alt ke kn kz =
     (let replace_nans = replace_nans_of alt;
          glat = finite_part lat;
          glon = finite_part lon;
          galt = map (\<lambda>a. a / 1000) (finite_part alt)
      in if time = [] then Inl IndexError
         else
           (let epoch = fst (time ! 0) in
            ebind (broadcast3 glat glon galt) (\<lambda>pts.
            let apex = map (\<lambda>(la, lo, al). geo2apex epoch la lo al) pts in
            ebind (np_insert (map (Fin \<circ> fst) apex) replace_nans NaN) (\<lambda>mlat'.
            ebind (np_insert (map (Fin \<circ> snd) apex) replace_nans NaN) (\<lambda>mlon'.
            let base = map (\<lambda>(la, lo, al). basevectors_apex epoch la lo al) pts in
            ebind (np_insert (map (\<lambda>(d1, d2, d3). fin3 d1) base) replace_nans nanvec) (\<lambda>d1.
            ebind (np_insert (map (\<lambda>(d1, d2, d3). fin3 d2) base) replace_nans nanvec) (\<lambda>d2.
            ebind (np_insert (map (\<lambda>(d1, d2, d3). fin3 d3) base) replace_nans nanvec) (\<lambda>d3.
            ebind (stack3 ke kn kz) (\<lambda>kvec.
            ebind (broadcast2 kvec (zip d1 (zip d2 d3))) (\<lambda>kd.
            Inr \<lparr> self_mlat = mlat', self_mlon = mlon',
                  self_A = map (\<lambda>(k, e1, e2, e3). (dot3 k e1, dot3 k e2, dot3 k e3)) kd,
                  self_D = map (\<lambda>(e1, e2). case cross3 e1 e2 of (c1, c2, c3) \<Rightarrow>
                             fl_sqrt (fl_sum [fl_sq c1, fl_sq c2, fl_sq c3])) (zip d1 d2)
                \<rparr>))))))))))"

section \<open>\<^verbatim>\<open>lin_interp\<close> and \<^verbatim>\<open>ion_outflow_correction\<close>\<close>

text \<open>Python indexing of a sequence: a negative index counts from the end.\<close>

definition getitem :: "'a list \<Rightarrow> int \<Rightarrow> error + 'a" where
  "getitem a k =
     (if 0 \<le> k \<and> k < int (length a) then Inr (a ! nat k)
      else if k < 0 \<and> - int (length a) \<le> k then Inr (a ! nat (int (length a) + k))
      else Inl IndexError)"

text \<open>\<^verbatim>\<open>np.fmin\<close> and \<^verbatim>\<open>np.fmax\<close> skip a NaN operand; \<^verbatim>\<open>np.nanmin\<close> and \<^verbatim>\<open>np.nanmax\<close> reduce
  an array with them and raise \<^verbatim>\<open>ValueError\<close> on an empty array.\<close>

definition fl_fmin :: "fl \<Rightarrow> fl \<Rightarrow> fl" where
  "fl_fmin a b = (if isnan a then b else if isnan b then a else if fl_lt b a then b else a)"

definition fl_fmax :: "fl \<Rightarrow> fl \<Rightarrow> fl" where
  "fl_fmax a b = (if isnan a then b else if isnan b then a else if fl_lt a b then b else a)"

definition nanmin :: "fl list \<Rightarrow> error + fl" where
  "nanmin xs = (case xs of [] \<Rightarrow> Inl ValueError | x # r \<Rightarrow> Inr (foldl fl_fmin x r))"

definition nanmax :: "fl list \<Rightarrow> error + fl" where
  "nanmax xs = (case xs of [] \<Rightarrow> Inl ValueError | x # r \<Rightarrow> Inr (foldl fl_fmax x r))"

text \<open>A list comprehension whose element expression may raise: the first error wins.\<close>

fun emap :: "('a \<Rightarrow> error + 'b) \<Rightarrow> 'a list \<Rightarrow> error + 'b list" where
  "emap f [] = Inr []"
| "emap f (x # xs) = ebind (f x) (\<lambda>y. ebind (emap f xs) (\<lambda>ys. Inr (y # ys)))"

text \<open>
  The element expression of the index array \<^verbatim>\<open>i\<close> for one target \<^verbatim>\<open>xi\<close>: the condition is
  evaluated first (both \<^verbatim>\<open>nanmin\<close> and \<^verbatim>\<open>nanmax\<close>); when it holds, the first position \<open>j\<close>
  with \<open>xp[j] <= xi < xp[j+1]\<close>, and \<^verbatim>\<open>IndexError\<close> from \<^verbatim>\<open>[0]\<close> when there is none;
  otherwise \<open>-1\<close>.
\<close>

definition brackets :: "fl list \<Rightarrow> fl \<Rightarrow> nat list" where
  "brackets xp xi =
     filter (\<lambda>j. fl_ge xi (xp ! j) \<and> fl_lt xi (xp ! Suc j)) [0..<length xp - 1]"

definition in_range :: "fl \<Rightarrow> fl \<Rightarrow> fl \<Rightarrow> bool" where
  "in_range lo hi xi = (fl_ge xi lo \<and> fl_lt xi hi)"

definition bracket_index :: "fl list \<Rightarrow> fl \<Rightarrow> error + int" where
  "bracket_index xp xi =
     ebind (nanmin xp) (\<lambda>lo. ebind (nanmax xp) (\<lambda>hi.
       if in_range lo hi xi then
         (case brackets xp xi of [] \<Rightarrow> Inl IndexError | j # _ \<Rightarrow> Inr (int j))
       else Inr (- 1)))"

text \<open>Elementwise arithmetic of arrays of one length.\<close>

definition ew2 :: "(fl \<Rightarrow> fl \<Rightarrow> fl) \<Rightarrow> fl list \<Rightarrow> fl list \<Rightarrow> fl list" where
  "ew2 f xs ys = map (\<lambda>(a, b). f a b) (zip xs ys)"

text \<open>
  \<^verbatim>\<open>lin_interp(x, xp, fp, dfp)\<close>. With no target the comprehension gives an empty array of
  floats, which numpy refuses as an index. Otherwise \<^verbatim>\<open>i\<close> is an array of integers as long
  as \<^verbatim>\<open>x\<close>, and \<^verbatim>\<open>xp[i]\<close>, \<^verbatim>\<open>xp[i+1]\<close>, \<^verbatim>\<open>fp[i]\<close>, ... are arrays of that length, so the
  arithmetic is elementwise.
\<close>

definition lin_interp ::
  "fl list \<Rightarrow> fl list \<Rightarrow> fl list \<Rightarrow> fl list \<Rightarrow> error + (fl list \<times> fl list)"
where
  "lin_interp x xp fp dfp =
     ebind (emap (bracket_index xp) x) (\<lambda>i.
     if i = [] then Inl IndexError
     else
       ebind (emap (getitem xp) i) (\<lambda>xp_i.
       ebind (emap (getitem xp) (map (\<lambda>k. k + 1) i)) (\<lambda>xp_i1.
       let X = ew2 fl_div (ew2 fl_sub x xp_i) (ew2 fl_sub xp_i1 xp_i) in
       ebind (emap (getitem fp) i) (\<lambda>fp_i.
       ebind (emap (getitem fp) (map (\<lambda>k. k + 1) i)) (\<lambda>fp_i1.
       let f = ew2 fl_add fp_i (ew2 fl_mul (ew2 fl_sub fp_i1 fp_i) X) in
       ebind (emap (getitem dfp) i) (\<lambda>dfp_i.
       ebind (emap (getitem dfp) (map (\<lambda>k. k + 1) i)) (\<lambda>dfp_i1.
       let df = map fl_sqrt
                  (ew2 fl_add
                     (ew2 fl_mul (map (\<lambda>a. fl_sq (fl_sub (Fin 1) a)) X) (map fl_sq dfp_i))
                     (ew2 fl_mul (map fl_sq X) (map fl_sq dfp_i1)))
       in Inr (map (\<lambda>(k, v). if k < 0 then NaN else v) (zip i f),
               map (\<lambda>(k, v). if k < 0 then NaN else v) (zip i df)))))))))"

text \<open>
  Elementwise arithmetic of two arrays under broadcasting, and the assignment of an array to
  row \<open>t\<close>, which must have the row's length or length one.
\<close>

definition bc2 :: "(fl \<Rightarrow> fl \<Rightarrow> fl) \<Rightarrow> fl list \<Rightarrow> fl list \<Rightarrow> error + fl list" where
  "bc2 f xs ys = ebind (broadcast2 xs ys) (\<lambda>ps. Inr (map (\<lambda>(a, b). f a b) ps))"

definition set_row :: "fl mat \<Rightarrow> nat \<Rightarrow> fl list \<Rightarrow> error + fl mat" where
  "set_row M t r =
     (if length M \<le> t then Inl IndexError
      else if length r = length (M ! t) then Inr (M[t := r])
      else if length r = 1 then Inr (M[t := replicate (length (M ! t)) (hd r)])
      else Inl ValueError)"

definition get_row :: "'a list \<Rightarrow> nat \<Rightarrow> error + 'a" where
  "get_row M t = (if t < length M then Inr (M ! t) else Inl IndexError)"

record upB_data =
  upB_alt :: "fl list"
  upB_vlos :: "fl mat"
  upB_dvlos :: "fl mat"

text \<open>One pass of the loop body of \<^verbatim>\<open>ion_outflow_correction\<close>, for the time record \<open>t\<close>.\<close>

definition outflow_step ::
  "fl list \<Rightarrow> upB_data \<Rightarrow> fl list \<Rightarrow> vec3 list \<Rightarrow> fl mat \<times> fl mat \<Rightarrow> nat \<Rightarrow> error + (fl mat \<times> fl mat)"
where
  "outflow_step alt upB Dv Av s t =
     (case s of (vlos, dvlos) \<Rightarrow>
      let A2 = map (\<lambda>(a, b, c). c) Av in
      ebind (get_row (upB_vlos upB) t) (\<lambda>fp.
      ebind (get_row (upB_dvlos upB) t) (\<lambda>dfp.
      ebind (lin_interp alt (upB_alt upB) fp dfp) (\<lambda>(vion, dvion).
      ebind (get_row vlos t) (\<lambda>vlos_t.
      ebind (bc2 fl_mul Dv A2) (\<lambda>DA.
      ebind (bc2 fl_mul DA vion) (\<lambda>DAv.
      ebind (bc2 fl_add vlos_t DAv) (\<lambda>new_vlos.
      ebind (set_row vlos t new_vlos) (\<lambda>vlos'.
      ebind (get_row dvlos t) (\<lambda>dvlos_t.
      ebind (bc2 fl_mul (map fl_sq Dv) (map fl_sq A2)) (\<lambda>D2A2.
      ebind (bc2 fl_mul D2A2 (map fl_sq dvion)) (\<lambda>D2A2dv2.
      ebind (bc2 fl_add (map fl_sq dvlos_t) D2A2dv2) (\<lambda>s2.
      ebind (set_row dvlos t (map fl_sqrt s2)) (\<lambda>dvlos'.
      Inr (vlos', dvlos')))))))))))))))"

fun efoldl :: "('s \<Rightarrow> 'a \<Rightarrow> error + 's) \<Rightarrow> 's \<Rightarrow> 'a list \<Rightarrow> error + 's" where
  "efoldl f s [] = Inr s"
| "efoldl f s (x # xs) = ebind (f s x) (\<lambda>s'. efoldl f s' xs)"

text \<open>
  \<^verbatim>\<open>ion_outflow_correction\<close>: nothing is done unless \<^verbatim>\<open>upB_beamcode\<close> is set and not zero.
\<close>

definition ion_outflow_correction ::
  "int option \<Rightarrow> (real \<times> real) list \<Rightarrow> fl list \<Rightarrow> upB_data \<Rightarrow> fl list \<Rightarrow> vec3 list \<Rightarrow>
     fl mat \<times> fl mat \<Rightarrow> error + (fl mat \<times> fl mat)"
where
  "ion_outflow_correction upB_beamcode time alt upB Dv Av s =
     (if upB_beamcode \<noteq> None \<and> upB_beamcode \<noteq> Some 0
      then efoldl (outflow_step alt upB Dv Av) s [0..<length time]
      else Inr s)"

section \<open>\<^verbatim>\<open>get_integration_periods\<close>\<close>

text \<open>
  An element of \<^verbatim>\<open>int_idx\<close>: one record index (an element of \<^verbatim>\<open>range(len(self.time))\<close>,
  when no integration time is set) or an array of record indices.
\<close>

datatype rec_index = Scalar nat | Array "nat list"

fun records_of :: "rec_index \<Rightarrow> nat list" where
  "records_of (Scalar t) = [t]"
| "records_of (Array ts) = ts"

record gip_state =
  idx :: "nat list"
  start_time :: "real option"
  int_period :: "(real \<times> real) list"
  int_idx :: "rec_index list"

text \<open>The loop over \<^verbatim>\<open>enumerate(self.time)\<close>, with the four variables it updates.\<close>

fun gip_loop :: "real \<Rightarrow> nat \<Rightarrow> (nat \<times> real \<times> real) list \<Rightarrow> gip_state \<Rightarrow> gip_state" where
  "gip_loop integration_time num_times [] s = s"
| "gip_loop integration_time num_times ((i, temp_start_time, temp_end_time) # rest) s =
     (let start = (case start_time s of None \<Rightarrow> temp_start_time | Some v \<Rightarrow> v);
          time_diff = temp_end_time - start;
          idx' = idx s @ [i]
      in if time_diff \<ge> integration_time \<or> int i = int num_times - 1
         then gip_loop integration_time num_times rest
                \<lparr> idx = [], start_time = None,
                  int_period = int_period s @ [(start, temp_end_time)],
                  int_idx = int_idx s @ [Array idx'] \<rparr>
         else gip_loop integration_time num_times rest
                (s\<lparr> idx := idx', start_time := Some start \<rparr>))"

text \<open>
  \<^verbatim>\<open>get_integration_periods\<close>: \<^verbatim>\<open>integration_time\<close> is \<^verbatim>\<open>None\<close> or a float, and
  \<^verbatim>\<open>not self.integration_time\<close> holds for \<^verbatim>\<open>None\<close> and for zero. The result is the pair
  (\<^verbatim>\<open>int_period\<close>, \<^verbatim>\<open>int_idx\<close>).
\<close>

definition truthy :: "real option \<Rightarrow> bool" where
  "truthy v = (v \<noteq> None \<and> v \<noteq> Some 0)"

definition get_integration_periods ::
  "(real \<times> real) list \<Rightarrow> real option \<Rightarrow> (real \<times> real) list \<times> rec_index list"
where
  "get_integration_periods time integration_time =
     (if \<not> truthy integration_time then (time, map Scalar [0..<length time])
      else
        (let s = gip_loop (the integration_time) (length time) (enumerate 0 time)
                   \<lparr> idx = [], start_time = None, int_period = [], int_idx = [] \<rparr>
         in (int_period s, int_idx s)))"

section \<open>\<^verbatim>\<open>compute_vectors\<close>\<close>

text \<open>
  \<^verbatim>\<open>a[tidx, bidx[:,np.newaxis]].flatten()\<close>: the index arrays broadcast to the shape
  (gates of the bin, records of the period), entry \<open>(g, t)\<close> being
  \<open>a[tidx[t], bidx[g]]\<close>, and \<^verbatim>\<open>flatten\<close> reads that row by row. An index outside the array
  raises \<^verbatim>\<open>IndexError\<close>.
\<close>

definition select_flat :: "fl mat \<Rightarrow> rec_index \<Rightarrow> nat list \<Rightarrow> error + fl list" where
  "select_flat a tidx bidx =
     (if (\<forall>t\<in>set (records_of tidx). t < length a \<and> (\<forall>g\<in>set bidx. g < length (a ! t)))
      then Inr (concat (map (\<lambda>g. map (\<lambda>t. a ! t ! g) (records_of tidx)) bidx))
      else Inl IndexError)"

text \<open>\<^verbatim>\<open>a[bidx]\<close>, the rows of \<^verbatim>\<open>a\<close> named by an index array.\<close>

definition take_rows :: "'a list \<Rightarrow> nat list \<Rightarrow> error + 'a list" where
  "take_rows a bidx = emap (get_row a) bidx"

text \<open>\<^verbatim>\<open>np.repeat(a, n, axis=0)\<close>: every row \<open>n\<close> times in a row.\<close>

definition np_repeat :: "'a list \<Rightarrow> nat \<Rightarrow> 'a list" where
  "np_repeat a n = concat (map (replicate n) a)"

text \<open>
  The arguments \<^verbatim>\<open>vlos\<close>, \<^verbatim>\<open>dvlos\<close> and \<^verbatim>\<open>A\<close> that the loop body builds for \<^verbatim>\<open>vvels\<close>, for one
  integration period and one bin. \<^verbatim>\<open>len(tidx)\<close> is evaluated only when an integration time
  is set, and then \<^verbatim>\<open>tidx\<close> is an array.
\<close>

definition vvels_args ::
  "real option \<Rightarrow> fl mat \<Rightarrow> fl mat \<Rightarrow> vec3 list \<Rightarrow> rec_index \<Rightarrow> nat list \<Rightarrow>
     error + (fl list \<times> fl list \<times> vec3 list)"
where
  "vvels_args integration_time vlos dvlos Av tidx bidx =
     ebind (select_flat vlos tidx bidx) (\<lambda>vlos_sel.
     ebind (select_flat dvlos tidx bidx) (\<lambda>dvlos_sel.
     ebind (take_rows Av bidx) (\<lambda>rows.
     Inr (vlos_sel, dvlos_sel,
          if truthy integration_time then np_repeat rows (length (records_of tidx)) else rows))))"

text \<open>
  The electric field. \<^verbatim>\<open>R = einsum('i,jk->ijk', Be3, [[0,-1,0],[1,0,0],[0,0,0]])\<close> is, for
  the bin with field magnitude \<open>b\<close>, the matrix \<open>rotation b\<close>.
  \<^verbatim>\<open>einsum('ijk,...ik->...ij', R, Velocity)\<close> applies it to the velocity of every period
  in that bin, and \<^verbatim>\<open>einsum('ijk,...ikl,iml->...ijm', R, VelocityCovariance, R)\<close> is, bin by
  bin, the sum \<^verbatim>\<open>'jk,kl,ml->jm'\<close> of \<open>rotation b\<close>, the covariance and \<open>rotation b\<close>. The bin
  axis of \<^verbatim>\<open>R\<close> and of the other operand is paired by broadcasting; an operand with no
  period or no bin does not fit the subscripts (\<^verbatim>\<open>ValueError\<close>).
\<close>

definition rotation :: "fl \<Rightarrow> fl mat" where
  "rotation b = map (map (\<lambda>c. fl_mul b (Fin c))) [[0, - 1, 0], [1, 0, 0], [0, 0, 0]]"

definition efield_cell :: "fl \<Rightarrow> fl list \<Rightarrow> fl list" where
  "efield_cell b V =
     map (\<lambda>j. fl_sum (map (\<lambda>k. fl_mul (rotation b ! j ! k) (V ! k)) [0..<3])) [0..<3]"

definition efield_cov_cell :: "fl \<Rightarrow> fl mat \<Rightarrow> fl mat" where
  "efield_cov_cell b S = einsum_jk_kl_ml (rotation b) S (rotation b)"

definition per_bin :: "(fl \<Rightarrow> 'a \<Rightarrow> 'b) \<Rightarrow> fl list \<Rightarrow> 'a list list \<Rightarrow> error + 'b list list" where
  "per_bin f Be3 X =
     (if X = [] \<or> (\<exists>row\<in>set X. row = []) then Inl ValueError
      else emap (\<lambda>row. ebind (broadcast2 Be3 row) (\<lambda>ps. Inr (map (\<lambda>(b, x). f b x) ps))) X)"

record vectors =
  Velocity :: "fl list list list"
  VelocityCovariance :: "fl mat list list"
  ElectricField :: "fl list list list"
  ElectricFieldCovariance :: "fl mat list list"

text \<open>
  \<^verbatim>\<open>compute_vectors\<close>: the loop nest that calls \<^verbatim>\<open>vvels\<close> for every integration period and
  bin, then the electric field. \<open>Be3\<close> is what the geomagnetic model returns for the bins
  (\<^verbatim>\<open>bvectors_apex\<close> at 200 km), one magnitude per bin.
\<close>

definition compute_vectors ::
  "(fl mat \<Rightarrow> fl mat option) \<Rightarrow> real option \<Rightarrow> vec3 \<Rightarrow> int \<Rightarrow> fl list \<Rightarrow> fl mat \<Rightarrow> fl mat \<Rightarrow>
     vec3 list \<Rightarrow> rec_index list \<Rightarrow> nat list list \<Rightarrow> error + vectors"
where
  "compute_vectors inv_nf integration_time covar minnumpoints Be3 vlos dvlos Av int_idx' bin_idx =
     ebind (emap (\<lambda>tidx.
              emap (\<lambda>bidx.
                ebind (vvels_args integration_time vlos dvlos Av tidx bidx) (\<lambda>(v, dv, Arep).
                vvels inv_nf v dv Arep covar minnumpoints)) bin_idx) int_idx') (\<lambda>cells.
     let Vel = map (map fst) cells;
         SigmaV = map (map snd) cells in
     ebind (per_bin efield_cell Be3 Vel) (\<lambda>E.
     ebind (per_bin efield_cov_cell Be3 SigmaV) (\<lambda>SigmaE.
     Inr \<lparr> Velocity = Vel, VelocityCovariance = SigmaV,
           ElectricField = E, ElectricFieldCovariance = SigmaE \<rparr>)))"

section \<open>Notions used in the properties\<close>

text \<open>A value is within \<open>tol\<close> of a real number: it is finite and the difference is small.\<close>

fun close_to :: "real \<Rightarrow> fl \<Rightarrow> real \<Rightarrow> bool" where
  "close_to tol (Fin a) b = (\<bar>a - b\<bar> \<le> tol)"
| "close_to tol _ b = False"

definition identity3 :: "vec3 list" where
  "identity3 = [(Fin 1, Fin 0, Fin 0), (Fin 0, Fin 1, Fin 0), (Fin 0, Fin 0, Fin 1)]"

text \<open>
  The rank of a real matrix with three columns is below 3 exactly when its Gram determinant
  \<open>det (A\<^sup>T A)\<close> vanishes.
\<close>

definition gram :: "vec3 list \<Rightarrow> real mat" where
  "gram Av = map (\<lambda>i. map (\<lambda>j. \<Sum>r\<leftarrow>Av. the_real (vec3_list r ! i) * the_real (vec3_list r ! j))
                [0..<3]) [0..<3]"

definition rank_lt3 :: "vec3 list \<Rightarrow> bool" where
  "rank_lt3 Av = (det (gram Av) = 0)"

text \<open>The \<^verbatim>\<open>try\<close> block of \<^verbatim>\<open>vvels\<close> raises \<^verbatim>\<open>LinAlgError\<close>: one of its four inversions is of a
  singular matrix.\<close>

definition try_raises ::
  "(fl mat \<Rightarrow> fl mat option) \<Rightarrow> fl list \<Rightarrow> fl list \<Rightarrow> vec3 list \<Rightarrow> vec3 \<Rightarrow> bool"
where
  "try_raises inv_nf vlos dvlos Av cov =
     (vvels_try inv_nf (mask (map isfinite vlos) vlos) (mask (map isfinite vlos) dvlos)
        (map vec3_list (mask (map isfinite vlos) Av)) (vec3_list cov) = Inl LinAlgError)"

text \<open>One possible LAPACK: every matrix with a non-finite entry is reported singular.\<close>

definition lapack_rejects :: "fl mat \<Rightarrow> fl mat option" where
  "lapack_rejects M = None"

text \<open>
  The body of the loop of \<^verbatim>\<open>get_integration_periods\<close> as one step, and the invariant of
  the loop after \<open>k\<close> records: the open window holds the records \<open>k0, ..., k - 1\<close>, the closed
  windows hold \<open>0, ..., k0 - 1\<close>, and every closed window is a run of records \<open>a, ..., b - 1\<close>
  with its period, long enough unless it was closed by the last record.
\<close>

definition gip_step :: "real \<Rightarrow> nat \<Rightarrow> nat \<times> real \<times> real \<Rightarrow> gip_state \<Rightarrow> gip_state" where
  "gip_step T n e s = (case e of (i, ts, te) \<Rightarrow>
     (let start = (case start_time s of None \<Rightarrow> ts | Some v \<Rightarrow> v);
          time_diff = te - start;
          idx' = idx s @ [i]
      in if time_diff \<ge> T \<or> int i = int n - 1
         then \<lparr> idx = [], start_time = None,
                  int_period = int_period s @ [(start, te)],
                  int_idx = int_idx s @ [Array idx'] \<rparr>
         else (s\<lparr> idx := idx', start_time := Some start \<rparr>)))"

definition gip_inv :: "real \<Rightarrow> (real \<times> real) list \<Rightarrow> nat \<Rightarrow> gip_state \<Rightarrow> bool" where
  "gip_inv T time k s =
     (\<exists>k0\<le>k. idx s = [k0..<k]
        \<and> concat (map records_of (int_idx s)) = [0..<k0]
        \<and> start_time s = (if k0 < k then Some (fst (time ! k0)) else None)
        \<and> (k = length time \<longrightarrow> k0 = k)
        \<and> length (int_period s) = length (int_idx s)
        \<and> (\<forall>j<length (int_idx s). \<exists>a b. a < b \<and> b \<le> k
              \<and> int_idx s ! j = Array [a..<b]
              \<and> int_period s ! j = (fst (time ! a), snd (time ! (b - 1)))
              \<and> (T \<le> snd (time ! (b - 1)) - fst (time ! a)
                  \<or> (Suc j = length (int_idx s) \<and> k = length time))))"

text \<open>Five one-minute records, as \<^verbatim>\<open>synthetic_data.py\<close> writes them.\<close>

definition minutes5 :: "(real \<times> real) list" where
  "minutes5 = [(0, 60), (60, 120), (120, 180), (180, 240), (240, 300)]"

definition periods5 :: "(real \<times> real) list" where
  "periods5 = [(0, 120), (120, 240), (240, 300)]"

definition windows5 :: "rec_index list" where
  "windows5 = [Array [0, 1], Array [2, 3], Array [4]]"

text \<open>
  The matrix \<open>R = Be3 [[0,-1,0],[1,0,0],[0,0,0]]\<close> over the reals, and the product and
  transpose of real matrices, to state \<open>R \<Sigma> R\<^sup>T\<close>.
\<close>

definition rmat_mul :: "real mat \<Rightarrow> real mat \<Rightarrow> real mat" where
  "rmat_mul M N =
     map (\<lambda>r. map (\<lambda>j. \<Sum>k\<leftarrow>[0..<length N]. r ! k * N ! k ! j) [0..<length (hd N)]) M"

definition rtranspose :: "real mat \<Rightarrow> real mat" where
  "rtranspose M = map (\<lambda>j. map (\<lambda>r. r ! j) M) [0..<length (hd M)]"

definition rotation_matrix :: "real \<Rightarrow> real mat" where
  "rotation_matrix b = map (map (\<lambda>c. b * c)) [[0, - 1, 0], [1, 0, 0], [0, 0, 0]]"

text \<open>The vectors of one period and one bin of one gate (unit measurement, unit prior,
  field magnitude 2).\<close>

definition cell_out :: vectors where
  "cell_out = \<lparr> Velocity = [[[Fin (1 / 2), Fin 0, Fin 0]]],
                 VelocityCovariance = [[[[Fin (1 / 2), Fin 0, Fin 0], [Fin 0, Fin 1, Fin 0],
                                         [Fin 0, Fin 0, Fin 1]]]],
                 ElectricField = [[[Fin 0, Fin 1, Fin 0]]],
                 ElectricFieldCovariance = [[[[Fin 4, Fin 0, Fin 0], [Fin 0, Fin 2, Fin 0],
                                              [Fin 0, Fin 0, Fin 0]]]] \<rparr>"

text \<open>Two records of two gates, and the k-vectors of the two gates.\<close>

definition vlos22 :: "fl mat" where
  "vlos22 = [[Fin 1, Fin 2], [Fin 3, Fin 4]]"

definition dvlos22 :: "fl mat" where
  "dvlos22 = [[Fin 5, Fin 6], [Fin 7, Fin 8]]"

definition A22 :: "vec3 list" where
  "A22 = [(Fin 1, Fin 0, Fin 0), (Fin 0, Fin 1, Fin 0)]"

text \<open>
  A target lies outside the range of the up-B altitudes: the test \<open>xi >= nanmin(xp)\<close> and
  \<open>xi < nanmax(xp)\<close> of \<^verbatim>\<open>lin_interp\<close> fails. An empty sequence has no range, and every
  target is outside it.
\<close>

definition outside :: "fl list \<Rightarrow> fl \<Rightarrow> bool" where
  "outside xp xi =
     (case (nanmin xp, nanmax xp) of (Inr lo, Inr hi) \<Rightarrow> \<not> in_range lo hi xi | _ \<Rightarrow> True)"

text \<open>An entry of the index array \<^verbatim>\<open>i\<close> for which \<open>a[i]\<close> and \<open>a[i+1]\<close> exist in an array of
  length \<open>n\<close>.\<close>

definition valid_index :: "nat \<Rightarrow> int \<Rightarrow> bool" where
  "valid_index n i = ((i = - 1 \<and> 0 < n) \<or> (0 \<le> i \<and> i + 1 < int n))"

text \<open>An up-B beam of three gates with one time record, and two gates to correct.\<close>

definition upB1 :: upB_data where
  "upB1 = \<lparr> upB_alt = [Fin 100, Fin 200, Fin 300],
             upB_vlos = [[Fin 10, Fin 20, Fin 30]],
             upB_dvlos = [[Fin 1, Fin 1, Fin 1]] \<rparr>"

definition alt1 :: "fl list" where
  "alt1 = [Fin 150, Fin 500]"

definition kz1 :: "vec3 list" where
  "kz1 = [(Fin 0, Fin 0, Fin 1), (Fin 0, Fin 0, Fin 1)]"

text \<open>
  Notions for \<^verbatim>\<open>transform\<close>: the gates whose altitude is not NaN; a gate whose three
  coordinates are missing together (altitude NaN) or finite together; the position handed
  to the geomagnetic model for a gate, and what the model returns there; and the entries of
  \<^verbatim>\<open>A\<close> and \<^verbatim>\<open>D\<close> computed from a gate's k-vector and base vectors.
\<close>

definition present :: "fl list \<Rightarrow> nat list" where
  "present alt = filter (\<lambda>i. \<not> isnan (alt ! i)) [0..<length alt]"

definition aligned_gate :: "fl \<Rightarrow> fl \<Rightarrow> fl \<Rightarrow> bool" where
  "aligned_gate la lo al =
     ((isnan al \<and> \<not> isfinite la \<and> \<not> isfinite lo) \<or> (isfinite al \<and> isfinite la \<and> isfinite lo))"

definition position :: "fl list \<Rightarrow> fl list \<Rightarrow> fl list \<Rightarrow> nat \<Rightarrow> real \<times> real \<times> real" where
  "position lat lon alt i = (the_real (lat ! i), the_real (lon ! i), the_real (alt ! i) / 1000)"

definition gate_A :: "vec3 \<Rightarrow> rvec3 \<times> rvec3 \<times> rvec3 \<Rightarrow> vec3" where
  "gate_A k d = (case d of (d1, d2, d3) \<Rightarrow>
     (dot3 k (fin3 d1), dot3 k (fin3 d2), dot3 k (fin3 d3)))"

definition gate_D :: "rvec3 \<times> rvec3 \<times> rvec3 \<Rightarrow> fl" where
  "gate_D d = (case d of (d1, d2, d3) \<Rightarrow>
     (case cross3 (fin3 d1) (fin3 d2) of (c1, c2, c3) \<Rightarrow>
        fl_sqrt (fl_sum [fl_sq c1, fl_sq c2, fl_sq c3])))"

definition apex_at ::
  "geo2apex_fn \<Rightarrow> (real \<times> real) list \<Rightarrow> fl list \<Rightarrow> fl list \<Rightarrow> fl list \<Rightarrow> nat \<Rightarrow> real \<times> real"
where
  "apex_at geo2apex time lat lon alt i =
     (case position lat lon alt i of (la, lo, al) \<Rightarrow> geo2apex (fst (time ! 0)) la lo al)"

definition base_at ::
  "basevectors_fn \<Rightarrow> (real \<times> real) list \<Rightarrow> fl list \<Rightarrow> fl list \<Rightarrow> fl list \<Rightarrow> nat
     \<Rightarrow> rvec3 \<times> rvec3 \<times> rvec3"
where
  "base_at basevectors_apex time lat lon alt i =
     (case position lat lon alt i of (la, lo, al) \<Rightarrow> basevectors_apex (fst (time ! 0)) la lo al)"

text \<open>A stand-in geomagnetic model and three gates, the middle one missing.\<close>

definition flat_geo2apex :: geo2apex_fn where
  "flat_geo2apex epoch la lo al = (la, lo)"

definition unit_basevectors :: basevectors_fn where
  "unit_basevectors epoch la lo al = ((1, 0, 0), (0, 1, 0), (0, 0, 1))"

definition lat3 :: "fl list" where
  "lat3 = [Fin 65, NaN, Fin 66]"

definition lon3 :: "fl list" where
  "lon3 = [Fin (- 147), NaN, Fin (- 148)]"

definition alt3 :: "fl list" where
  "alt3 = [Fin 100000, NaN, Fin 200000]"

definition up3 :: "fl list" where
  "up3 = [Fin 1, NaN, Fin 1]"

definition zero3 :: "fl list" where
  "zero3 = [Fin 0, NaN, Fin 0]"

section \<open>Properties of \<^verbatim>\<open>vvels\<close>\<close>

text \<open>Evaluation of the small index ranges and determinants met on concrete inputs.\<close>

lemma upt3: "[0..<3] = [0, 1, 2]"
  by (simp add: upt_rec)

lemma upt2: "[0..<2] = [0, 1]"
  by (simp add: upt_rec)

lemma upt1: "[0..<1] = [0]"
  by (simp add: upt_rec)

lemma upt_Suc2: "[0..<Suc (Suc 0)] = [0, 1]"
  by (simp add: upt_rec)

lemma upt_Suc3: "[0..<Suc (Suc (Suc 0))] = [0, 1, 2]"
  by (simp add: upt_rec)

lemma det1: "det [[a]] = a"
  by (simp add: drop_col_def)

lemma det2: "det [[a, b], [c, d]] = a * d - b * c"
  by (simp add: drop_col_def upt_rec)

lemma det3:
  "det [[a, b, c], [d, e, f], [g, h, i]]
     = a * (e * i - f * h) - b * (d * i - f * g) + c * (d * h - e * g)"
  by (simp add: drop_col_def upt_rec numeral_3_eq_3 algebra_simps)

lemmas eval_simps = einsum_jk_kl_ml_def einsum_jk_lk_lm_m_def einsum_kj_kl_lm_def diagflat_def
  fl_sum_def fl_sq_def mat_add_def linalg_inv_def all_finite_def minor_def drop_col_def
  upt3 upt2 upt1 upt_Suc2 upt_Suc3 det1 det2 det3 Let_def

lemma linalg_inv_error: "linalg_inv inv_nf M = Inl e \<Longrightarrow> e = LinAlgError"
  by (auto simp: linalg_inv_def Let_def split: if_splits option.splits)

lemma vvels_try_error: "vvels_try inv_nf vlos dvlos Av cov = Inl e \<Longrightarrow> e = LinAlgError"
  by (auto simp: vvels_try_def Let_def split: sum.splits dest: linalg_inv_error)

lemma vvels_try_synthetic:
  "vvels_try inv_nf [Fin 1, Fin 0, Fin (- 1)] [Fin (1 / 10), Fin (1 / 10), Fin (1 / 10)]
     [[Fin 1, Fin 0, Fin 0], [Fin 0, Fin 1, Fin 0], [Fin 0, Fin 0, Fin 1]]
     [Fin 1000000, Fin 1000000, Fin 1000000]
   = Inr ([Fin (100000000 / 100000001), Fin 0, Fin (- (100000000 / 100000001))],
          [[Fin (1000000 / 100000001), Fin 0, Fin 0],
           [Fin 0, Fin (1000000 / 100000001), Fin 0],
           [Fin 0, Fin 0, Fin (1000000 / 100000001)]])"
  by (simp add: vvels_try_def eval_simps)

text \<open>
  C1. For \<open>A\<close> the 3x3 identity, \<open>vlos = [1, 0, -1]\<close>, \<open>dvlos = [0.1, 0.1, 0.1]\<close>, the prior
  covariance \<open>diag(1e6, 1e6, 1e6)\<close> and \<open>minnumpoints \<le> 3\<close>, \<^verbatim>\<open>vvels\<close> returns a velocity
  within \<open>1e-6\<close> of \<open>[1, 0, -1]\<close> in each component and a covariance within \<open>1e-6\<close> of
  \<open>diag(0.01, 0.01, 0.01)\<close> in each entry (in exact arithmetic).
\<close>

theorem vvels_synthetic_case:
  assumes "minnumpoints \<le> 3"
  shows "\<exists>V S. vvels inv_nf [Fin 1, Fin 0, Fin (- 1)] [Fin (1 / 10), Fin (1 / 10), Fin (1 / 10)]
                 identity3 (Fin 1000000, Fin 1000000, Fin 1000000) minnumpoints = Inr (V, S)
           \<and> list_all2 (close_to (1 / 1000000)) V [1, 0, - 1]
           \<and> list_all2 (list_all2 (close_to (1 / 1000000))) S
                [[1 / 100, 0, 0], [0, 1 / 100, 0], [0, 0, 1 / 100]]"
  using assms vvels_try_synthetic[of inv_nf]
  by (simp add: vvels_def Let_def mask_def identity3_def vec3_list_def)

theorem vvels_synthetic_case_witness:
  "(3::int) \<le> 3
   \<and> (\<exists>V S. vvels lapack_rejects [Fin 1, Fin 0, Fin (- 1)]
                 [Fin (1 / 10), Fin (1 / 10), Fin (1 / 10)]
                 identity3 (Fin 1000000, Fin 1000000, Fin 1000000) 3 = Inr (V, S)
           \<and> list_all2 (close_to (1 / 1000000)) V [1, 0, - 1]
           \<and> list_all2 (list_all2 (close_to (1 / 1000000))) S
                [[1 / 100, 0, 0], [0, 1 / 100, 0], [0, 0, 1 / 100]])"
  using vvels_synthetic_case[of 3 lapack_rejects] by simp

text \<open>
  C2, as stated, fails: two parallel k-vectors (rank 1) with unit errors and a unit prior
  give a finite velocity and covariance, not NaN. The prior keeps every inverted matrix
  regular.
\<close>

theorem vvels_parallel_counterexample:
  "rank_lt3 [(Fin 1, Fin 0, Fin 0), (Fin 1, Fin 0, Fin 0)]
   \<and> vvels lapack_rejects [Fin 1, Fin 1] [Fin 1, Fin 1]
       [(Fin 1, Fin 0, Fin 0), (Fin 1, Fin 0, Fin 0)] (Fin 1, Fin 1, Fin 1) 1
     = Inr ([Fin (2 / 3), Fin 0, Fin 0],
            [[Fin (1 / 3), Fin 0, Fin 0], [Fin 0, Fin 1, Fin 0], [Fin 0, Fin 0, Fin 1]])"
  by (simp add: rank_lt3_def gram_def vvels_def vvels_try_def mask_def vec3_list_def eval_simps)

text \<open>
  C2, amended. For arrays \<open>vlos\<close>, \<open>dvlos\<close> and \<open>A\<close> of one length, \<^verbatim>\<open>vvels\<close> does not raise, and
  whenever one of the matrix inversions of its \<^verbatim>\<open>try\<close> block meets a singular matrix the
  result is NaN(3) and NaN(3x3).
\<close>

theorem vvels_singular_inversion:
  assumes "length dvlos = length vlos" and "length Av = length vlos"
  shows "\<exists>V S. vvels inv_nf vlos dvlos Av cov minnumpoints = Inr (V, S)
           \<and> (try_raises inv_nf vlos dvlos Av cov \<longrightarrow> V = nan3 \<and> S = nan33)"
proof (cases "vvels_try inv_nf (mask (map isfinite vlos) vlos) (mask (map isfinite vlos) dvlos)
                (map vec3_list (mask (map isfinite vlos) Av)) (vec3_list cov)")
  case (Inl e)
  then have "e = LinAlgError" by (rule vvels_try_error)
  with Inl show ?thesis using assms by (simp add: vvels_def Let_def try_raises_def)
next
  case (Inr p)
  then show ?thesis using assms
    by (cases p) (simp add: vvels_def Let_def try_raises_def)
qed

lemma zero_error_try_raises:
  "try_raises lapack_rejects [Fin 1] [Fin 0] [(Fin 1, Fin 0, Fin 0)] (Fin 1, Fin 1, Fin 1)"
  by (simp add: try_raises_def vvels_try_def mask_def vec3_list_def eval_simps)

theorem vvels_singular_inversion_witness:
  "length [Fin 0] = length [Fin 1] \<and> length [(Fin 1, Fin 0, Fin 0)] = length [Fin 1]
   \<and> try_raises lapack_rejects [Fin 1] [Fin 0] [(Fin 1, Fin 0, Fin 0)] (Fin 1, Fin 1, Fin 1)
   \<and> vvels lapack_rejects [Fin 1] [Fin 0] [(Fin 1, Fin 0, Fin 0)] (Fin 1, Fin 1, Fin 1) 1
       = Inr (nan3, nan33)"
  using vvels_singular_inversion[of "[Fin 0]" "[Fin 1]" "[(Fin 1, Fin 0, Fin 0)]" lapack_rejects
          "(Fin 1, Fin 1, Fin 1)" 1] zero_error_try_raises
  by auto

text \<open>
  C3. When fewer measurements have a finite LoS velocity than \<open>minnumpoints\<close>, \<^verbatim>\<open>vvels\<close>
  returns NaN(3) and NaN(3x3) as its result, whatever the inversions gave.
\<close>

theorem vvels_underdetermined:
  assumes "length dvlos = length vlos" and "length Av = length vlos"
    and "int (length (filter isfinite vlos)) < minnumpoints"
  shows "vvels inv_nf vlos dvlos Av cov minnumpoints = Inr (nan3, nan33)"
proof -
  have c: "length (filter id (map isfinite vlos)) = length (filter isfinite vlos)"
    by (simp add: filter_map comp_def)
  show ?thesis
  proof (cases "vvels_try inv_nf (mask (map isfinite vlos) vlos) (mask (map isfinite vlos) dvlos)
                  (map vec3_list (mask (map isfinite vlos) Av)) (vec3_list cov)")
    case (Inl e)
    then have "e = LinAlgError" by (rule vvels_try_error)
    with Inl show ?thesis using assms c by (simp add: vvels_def Let_def)
  next
    case (Inr p)
    then show ?thesis using assms c by (simp add: vvels_def Let_def)
  qed
qed

theorem vvels_underdetermined_witness:
  "length [Fin 1, Fin 1, Fin 1] = length [Fin 1, NaN, Fin 1]
   \<and> length [(Fin 1, Fin 0, Fin 0), (Fin 0, Fin 0, Fin 1), (Fin 0, Fin 1, Fin 0)]
       = length [Fin 1, NaN, Fin 1]
   \<and> int (length (filter isfinite [Fin 1, NaN, Fin 1])) < 3
   \<and> vvels lapack_rejects [Fin 1, NaN, Fin 1] [Fin 1, Fin 1, Fin 1]
       [(Fin 1, Fin 0, Fin 0), (Fin 0, Fin 0, Fin 1), (Fin 0, Fin 1, Fin 0)]
       (Fin 1, Fin 1, Fin 1) 3 = Inr (nan3, nan33)"
  using vvels_underdetermined[of "[Fin 1, Fin 1, Fin 1]" "[Fin 1, NaN, Fin 1]"
          "[(Fin 1, Fin 0, Fin 0), (Fin 0, Fin 0, Fin 1), (Fin 0, Fin 1, Fin 0)]" 3
          lapack_rejects "(Fin 1, Fin 1, Fin 1)"]
  by simp

section \<open>Properties of \<^verbatim>\<open>get_integration_periods\<close>\<close>

lemma upt_join: "i \<le> j \<Longrightarrow> j \<le> k \<Longrightarrow> [i..<j] @ [j..<k] = [i..<k]"
  using upt_add_eq_append[of i j "k - j"] by simp

lemma gip_loop_step: "gip_loop T n (e # rest) s = gip_loop T n rest (gip_step T n e s)"
  by (cases e) (simp add: gip_step_def Let_def)

lemma gip_step_inv:
  assumes inv: "gip_inv T time k s" and k: "k < length time"
  shows "gip_inv T time (Suc k) (gip_step T (length time) (k, time ! k) s)"
proof -
  from inv obtain k0 where k0: "k0 \<le> k" "idx s = [k0..<k]"
      "concat (map records_of (int_idx s)) = [0..<k0]"
      "start_time s = (if k0 < k then Some (fst (time ! k0)) else None)"
      "length (int_period s) = length (int_idx s)"
    and old: "\<forall>j<length (int_idx s). \<exists>a b. a < b \<and> b \<le> k
              \<and> int_idx s ! j = Array [a..<b]
              \<and> int_period s ! j = (fst (time ! a), snd (time ! (b - 1)))
              \<and> (T \<le> snd (time ! (b - 1)) - fst (time ! a)
                  \<or> (Suc j = length (int_idx s) \<and> k = length time))"
    unfolding gip_inv_def by blast
  obtain ts te where tk: "time ! k = (ts, te)" by (cases "time ! k")
  define start where "start = (case start_time s of None \<Rightarrow> ts | Some v \<Rightarrow> v)"
  have start: "start = fst (time ! k0)"
  proof (cases "k0 < k")
    case True then show ?thesis using k0 by (simp add: start_def)
  next
    case False then have "k0 = k" using k0 by simp
    then show ?thesis using k0 tk by (simp add: start_def)
  qed
  have idx': "idx s @ [k] = [k0..<Suc k]" using k0 by simp
  have old': "\<forall>j<length (int_idx s). \<exists>a b. a < b \<and> b \<le> Suc k
              \<and> int_idx s ! j = Array [a..<b]
              \<and> int_period s ! j = (fst (time ! a), snd (time ! (b - 1)))
              \<and> T \<le> snd (time ! (b - 1)) - fst (time ! a)"
  proof (intro allI impI)
    fix j assume "j < length (int_idx s)"
    with old obtain a b where "a < b" "b \<le> k" "int_idx s ! j = Array [a..<b]"
      "int_period s ! j = (fst (time ! a), snd (time ! (b - 1)))"
      "T \<le> snd (time ! (b - 1)) - fst (time ! a) \<or> (Suc j = length (int_idx s) \<and> k = length time)"
      by blast
    with k show "\<exists>a b. a < b \<and> b \<le> Suc k
              \<and> int_idx s ! j = Array [a..<b]
              \<and> int_period s ! j = (fst (time ! a), snd (time ! (b - 1)))
              \<and> T \<le> snd (time ! (b - 1)) - fst (time ! a)"
      by (intro exI[of _ a] exI[of _ b]) auto
  qed
  show ?thesis
  proof (cases "te - start \<ge> T \<or> int k = int (length time) - 1")
    case True
    then have st: "gip_step T (length time) (k, time ! k) s =
        \<lparr> idx = [], start_time = None, int_period = int_period s @ [(start, te)],
          int_idx = int_idx s @ [Array [k0..<Suc k]] \<rparr>"
      using tk idx' by (simp add: gip_step_def Let_def start_def)
    have new: "T \<le> snd (time ! k) - fst (time ! k0) \<or> Suc k = length time"
      using True tk start by auto
    show ?thesis
      unfolding gip_inv_def st
    proof (intro exI[of _ "Suc k"] conjI)
      show "concat (map records_of (gip_state.int_idx \<lparr>idx = [], start_time = None,
               int_period = int_period s @ [(start, te)],
               int_idx = int_idx s @ [Array [k0..<Suc k]]\<rparr>)) = [0..<Suc k]"
        using k0 upt_join[of 0 k0 "Suc k"] by (simp del: upt_Suc)
      show "\<forall>j<length (gip_state.int_idx \<lparr>idx = [], start_time = None,
               int_period = int_period s @ [(start, te)],
               int_idx = int_idx s @ [Array [k0..<Suc k]]\<rparr>). \<exists>a b. a < b \<and> b \<le> Suc k \<and>
             gip_state.int_idx \<lparr>idx = [], start_time = None,
               int_period = int_period s @ [(start, te)],
               int_idx = int_idx s @ [Array [k0..<Suc k]]\<rparr> ! j = Array [a..<b] \<and>
             gip_state.int_period \<lparr>idx = [], start_time = None,
               int_period = int_period s @ [(start, te)],
               int_idx = int_idx s @ [Array [k0..<Suc k]]\<rparr> ! j = (fst (time ! a), snd (time ! (b - 1))) \<and>
             (T \<le> snd (time ! (b - 1)) - fst (time ! a) \<or>
              Suc j = length (gip_state.int_idx \<lparr>idx = [], start_time = None,
               int_period = int_period s @ [(start, te)],
               int_idx = int_idx s @ [Array [k0..<Suc k]]\<rparr>) \<and> Suc k = length time)"
      proof (intro allI impI)
        fix j assume j: "j < length (gip_state.int_idx \<lparr>idx = [], start_time = None,
               int_period = int_period s @ [(start, te)],
               int_idx = int_idx s @ [Array [k0..<Suc k]]\<rparr>)"
        show "\<exists>a b. a < b \<and> b \<le> Suc k \<and>
             gip_state.int_idx \<lparr>idx = [], start_time = None,
               int_period = int_period s @ [(start, te)],
               int_idx = int_idx s @ [Array [k0..<Suc k]]\<rparr> ! j = Array [a..<b] \<and>
             gip_state.int_period \<lparr>idx = [], start_time = None,
               int_period = int_period s @ [(start, te)],
               int_idx = int_idx s @ [Array [k0..<Suc k]]\<rparr> ! j = (fst (time ! a), snd (time ! (b - 1))) \<and>
             (T \<le> snd (time ! (b - 1)) - fst (time ! a) \<or>
              Suc j = length (gip_state.int_idx \<lparr>idx = [], start_time = None,
               int_period = int_period s @ [(start, te)],
               int_idx = int_idx s @ [Array [k0..<Suc k]]\<rparr>) \<and> Suc k = length time)"
        proof (cases "j < length (int_idx s)")
          case True
          with old' obtain a b where "a < b" "b \<le> Suc k" "int_idx s ! j = Array [a..<b]"
            "int_period s ! j = (fst (time ! a), snd (time ! (b - 1)))"
            "T \<le> snd (time ! (b - 1)) - fst (time ! a)" by blast
          with True k0 show ?thesis
            by (intro exI[of _ a] exI[of _ b]) (simp add: nth_append)
        next
          case False
          with j have "j = length (int_idx s)" by simp
          with k0 new start tk show ?thesis
            by (intro exI[of _ k0] exI[of _ "Suc k"]) (auto simp: nth_append)
        qed
      qed
    qed (use k0 in auto)
  next
    case False
    then have st: "gip_step T (length time) (k, time ! k) s =
        s\<lparr> idx := [k0..<Suc k], start_time := Some start \<rparr>"
      using tk idx' by (simp add: gip_step_def Let_def start_def)
    from False have nl: "Suc k \<noteq> length time" by auto
    show ?thesis
      unfolding gip_inv_def st
      apply (rule exI[of _ k0])
      using k0 old' start nl by auto
  qed
qed

lemma gip_loop_inv:
  assumes "gip_inv T time (length pre) s" and "time = pre @ rest"
  shows "gip_inv T time (length time)
           (gip_loop T (length time) (enumerate (length pre) rest) s)"
  using assms
proof (induction rest arbitrary: pre s)
  case Nil
  then show ?case by simp
next
  case (Cons x rest)
  have k: "length pre < length time" using Cons.prems by simp
  have x: "time ! length pre = x" using Cons.prems by simp
  have "gip_inv T time (Suc (length pre)) (gip_step T (length time) (length pre, x) s)"
    using gip_step_inv[OF Cons.prems(1) k] x by simp
  then have "gip_inv T time (length (pre @ [x])) (gip_step T (length time) (length pre, x) s)"
    by simp
  from Cons.IH[OF this] Cons.prems(2)
  show ?case by (simp add: gip_loop_step)
qed

lemma gip_inv_init:
  "gip_inv T time 0 \<lparr> idx = [], start_time = None, int_period = [], int_idx = [] \<rparr>"
  by (simp add: gip_inv_def)

text \<open>
  C5. With an integration time set (\<open>T\<close>, not zero), the record-index arrays of the windows,
  one after the other, are exactly \<open>0, ..., n - 1\<close>: every record is in one window, once,
  and each window \<open>j\<close> is a run of consecutive records \<open>a, ..., b - 1\<close>. Its period is
  (start of record \<open>a\<close>, end of record \<open>b - 1\<close>), and that duration is at least \<open>T\<close> for
  every window but the last.
\<close>

theorem integration_periods_partition:
  assumes "T \<noteq> 0" and "get_integration_periods time (Some T) = (P, W)"
  shows "concat (map records_of W) = [0..<length time]
         \<and> length P = length W
         \<and> (\<forall>j<length W. \<exists>a b. a < b \<and> b \<le> length time \<and> W ! j = Array [a..<b]
               \<and> P ! j = (fst (time ! a), snd (time ! (b - 1)))
               \<and> (Suc j < length W \<longrightarrow> T \<le> snd (P ! j) - fst (P ! j)))"
proof -
  define s where "s = gip_loop T (length time) (enumerate 0 time)
                   \<lparr> idx = [], start_time = None, int_period = [], int_idx = [] \<rparr>"
  have PW: "P = int_period s" "W = int_idx s"
    using assms by (simp_all add: get_integration_periods_def truthy_def Let_def s_def)
  have "gip_inv T time (length time) s"
    unfolding s_def using gip_loop_inv[where pre = "[]" and rest = time and time = time] gip_inv_init
    by simp
  then show ?thesis
    unfolding gip_inv_def PW by fastforce
qed

theorem integration_periods_partition_witness:
  "(120::real) \<noteq> 0
   \<and> get_integration_periods minutes5 (Some 120) = (periods5, windows5)
   \<and> concat (map records_of windows5) = [0..<length minutes5]
   \<and> length periods5 = length windows5
   \<and> windows5 = [Array [0..<2], Array [2..<4], Array [4..<5]]
   \<and> periods5 ! 0 = (fst (minutes5 ! 0), snd (minutes5 ! 1))
   \<and> 120 \<le> snd (periods5 ! 0) - fst (periods5 ! 0)
   \<and> periods5 ! 1 = (fst (minutes5 ! 2), snd (minutes5 ! 3))
   \<and> 120 \<le> snd (periods5 ! 1) - fst (periods5 ! 1)
   \<and> periods5 ! 2 = (fst (minutes5 ! 4), snd (minutes5 ! 4))"
proof -
  have g: "get_integration_periods minutes5 (Some 120) = (periods5, windows5)"
    by (simp add: get_integration_periods_def truthy_def minutes5_def periods5_def
          windows5_def Let_def)
  have e: "windows5 = [Array [0..<2], Array [2..<4], Array [4..<5]]"
    "periods5 ! 0 = (fst (minutes5 ! 0), snd (minutes5 ! 1))"
    "120 \<le> snd (periods5 ! 0) - fst (periods5 ! 0)"
    "periods5 ! 1 = (fst (minutes5 ! 2), snd (minutes5 ! 3))"
    "120 \<le> snd (periods5 ! 1) - fst (periods5 ! 1)"
    "periods5 ! 2 = (fst (minutes5 ! 4), snd (minutes5 ! 4))"
    by (simp_all add: minutes5_def periods5_def windows5_def upt_rec)
  from integration_periods_partition[OF _ g] g e show ?thesis by simp
qed

section \<open>Properties of \<^verbatim>\<open>filter_data\<close>\<close>

text \<open>
  C4 says that an entry is nulled when its gate lies outside the altitude range. The
  altitude step indexes the (record, gate) arrays with the gate numbers along the record
  axis. With two records and two gates, gate 0 at 200 km and gate 1 at 900 km, the range
  150 km to 400 km, and data that pass every other test, the code nulls record 1 of both
  gates and keeps record 0 of gate 1; with one record only, the index 1 is not a row and
  the assignment raises \<^verbatim>\<open>IndexError\<close>.
\<close>

theorem filter_data_altitude_indexes_records:
  "filter_data 0 0 150 400 (200, 1 / 2, 2000, 100)
     [[Fin 100, Fin 100], [Fin 100, Fin 100]] [Fin 200000, Fin 900000]
     [[Fin 10, Fin 10], [Fin 10, Fin 10]] [[Fin 1, Fin 1], [Fin 1, Fin 1]]
   = Inr ([[Fin 10, Fin 10], [NaN, NaN]], [[Fin 1, Fin 1], [NaN, NaN]])
   \<and> filter_data 0 0 150 400 (200, 1 / 2, 2000, 100)
       [[Fin 100, Fin 100]] [Fin 200000, Fin 900000] [[Fin 10, Fin 10]] [[Fin 1, Fin 1]]
     = Inl IndexError"
  by (simp add: filter_data_def has_shape_def nan_where_def nan_rows_def fl_gt_def
        upt2 upt1 upt_Suc2 Let_def)

section \<open>Properties of \<^verbatim>\<open>compute_vectors\<close>\<close>

lemma nth_concat_map_fixed:
  assumes "\<forall>x\<in>set xs. length (F x) = k" and "i < length xs * k"
  shows "concat (map F xs) ! i = F (xs ! (i div k)) ! (i mod k)"
  using assms
proof (induction xs arbitrary: i)
  case Nil
  then show ?case by simp
next
  case (Cons x xs)
  have k: "0 < k" using Cons.prems(2) by (cases k) auto
  show ?case
  proof (cases "i < k")
    case True
    then show ?thesis using Cons.prems by (simp add: nth_append)
  next
    case False
    then have ik: "k \<le> i" by simp
    have d: "(i - k) div k = i div k - 1" and m: "(i - k) mod k = i mod k"
      using ik k le_div_geq[of k i] le_mod_geq[of k i] by simp_all
    have pos: "0 < i div k" using ik k by (simp add: div_greater_zero_iff)
    have "i - k < length xs * k" using Cons.prems(2) ik by simp
    with Cons.IH[of "i - k"] Cons.prems(1)
    have "concat (map F xs) ! (i - k) = F (xs ! ((i - k) div k)) ! ((i - k) mod k)" by simp
    with False Cons.prems(1) pos show ?thesis
      by (simp add: nth_append d m nth_Cons')
  qed
qed

lemma length_concat_map_fixed:
  "\<forall>x\<in>set xs. length (F x) = k \<Longrightarrow> length (concat (map F xs)) = length xs * k"
  by (induction xs) auto

lemma emap_get_row:
  "\<forall>g\<in>set bidx. g < length a \<Longrightarrow> emap (get_row a) bidx = Inr (map (\<lambda>g. a ! g) bidx)"
  by (induction bidx) (auto simp: get_row_def ebind_def)

text \<open>
  C9. With an integration time set, for the records \<open>ts\<close> of a period and the gates \<open>bidx\<close>
  of a bin (all within the arrays), the flattened \<open>vlos\<close> and \<open>dvlos\<close> and the repeated rows
  of \<open>A\<close> have the same length, and entry \<open>i\<close> of each belongs to the gate
  \<open>bidx[i div len(ts)]\<close>: the measurement is that gate's at record \<open>ts[i mod len(ts)]\<close>,
  and the k-vector row is that gate's row. All three are gate-major.
\<close>

theorem vvels_args_gate_major:
  assumes it: "truthy integration_time"
    and t: "\<forall>t\<in>set ts. t < length vlos \<and> t < length dvlos
              \<and> (\<forall>g\<in>set bidx. g < length (vlos ! t) \<and> g < length (dvlos ! t))"
    and g: "\<forall>g\<in>set bidx. g < length Av"
  shows "\<exists>v dv Arep.
           vvels_args integration_time vlos dvlos Av (Array ts) bidx = Inr (v, dv, Arep)
           \<and> length v = length bidx * length ts
           \<and> length dv = length bidx * length ts
           \<and> length Arep = length bidx * length ts
           \<and> (\<forall>i<length bidx * length ts.
                 v ! i = vlos ! (ts ! (i mod length ts)) ! (bidx ! (i div length ts))
                 \<and> dv ! i = dvlos ! (ts ! (i mod length ts)) ! (bidx ! (i div length ts))
                 \<and> Arep ! i = Av ! (bidx ! (i div length ts)))"
proof -
  define k where "k = length ts"
  let ?v = "concat (map (\<lambda>g. map (\<lambda>t. vlos ! t ! g) ts) bidx)"
  let ?dv = "concat (map (\<lambda>g. map (\<lambda>t. dvlos ! t ! g) ts) bidx)"
  let ?A = "np_repeat (map (\<lambda>g. Av ! g) bidx) k"
  have eq: "vvels_args integration_time vlos dvlos Av (Array ts) bidx = Inr (?v, ?dv, ?A)"
    using it t g by (simp add: vvels_args_def select_flat_def take_rows_def emap_get_row
        ebind_def k_def)
  have lv: "length ?v = length bidx * k" and ldv: "length ?dv = length bidx * k"
    by (simp_all add: length_concat_map_fixed k_def)
  have lA: "length ?A = length bidx * k"
    unfolding np_repeat_def using length_concat_map_fixed[of "map (\<lambda>g. Av ! g) bidx" "replicate k" k]
    by simp
  have ix: "\<forall>i<length bidx * k.
                 ?v ! i = vlos ! (ts ! (i mod k)) ! (bidx ! (i div k))
                 \<and> ?dv ! i = dvlos ! (ts ! (i mod k)) ! (bidx ! (i div k))
                 \<and> ?A ! i = Av ! (bidx ! (i div k))"
  proof (intro allI impI)
    fix i assume i: "i < length bidx * k"
    then have k0: "0 < k" by (cases k) auto
    have dk: "i div k < length bidx" using i k0 by (simp add: less_mult_imp_div_less)
    have mk: "i mod k < k" using k0 by simp
    have 1: "?v ! i = vlos ! (ts ! (i mod k)) ! (bidx ! (i div k))"
      using nth_concat_map_fixed[of bidx "\<lambda>g. map (\<lambda>t. vlos ! t ! g) ts" k i] i mk
      by (simp add: k_def)
    have 2: "?dv ! i = dvlos ! (ts ! (i mod k)) ! (bidx ! (i div k))"
      using nth_concat_map_fixed[of bidx "\<lambda>g. map (\<lambda>t. dvlos ! t ! g) ts" k i] i mk
      by (simp add: k_def)
    have 3: "?A ! i = Av ! (bidx ! (i div k))"
      unfolding np_repeat_def
      using nth_concat_map_fixed[of "map (\<lambda>g. Av ! g) bidx" "replicate k" k i] i mk dk
      by simp
    from 1 2 3 show "?v ! i = vlos ! (ts ! (i mod k)) ! (bidx ! (i div k))
                 \<and> ?dv ! i = dvlos ! (ts ! (i mod k)) ! (bidx ! (i div k))
                 \<and> ?A ! i = Av ! (bidx ! (i div k))" by simp
  qed
  show ?thesis
    using eq lv ldv lA ix unfolding k_def by blast
qed

theorem vvels_args_gate_major_witness:
  "truthy (Some 120)
   \<and> length vlos22 = 2 \<and> length dvlos22 = 2 \<and> length A22 = 2
   \<and> length (vlos22 ! 0) = 2 \<and> length (vlos22 ! 1) = 2
   \<and> length (dvlos22 ! 0) = 2 \<and> length (dvlos22 ! 1) = 2
   \<and> vvels_args (Some 120) vlos22 dvlos22 A22 (Array [0, 1]) [0, 1]
       = Inr ([Fin 1, Fin 3, Fin 2, Fin 4], [Fin 5, Fin 7, Fin 6, Fin 8],
              [(Fin 1, Fin 0, Fin 0), (Fin 1, Fin 0, Fin 0),
               (Fin 0, Fin 1, Fin 0), (Fin 0, Fin 1, Fin 0)])
   \<and> (\<exists>v dv Arep.
           vvels_args (Some 120) vlos22 dvlos22 A22 (Array [0, 1]) [0, 1] = Inr (v, dv, Arep)
           \<and> length v = length [0::nat, 1] * length [0::nat, 1]
           \<and> length dv = length [0::nat, 1] * length [0::nat, 1]
           \<and> length Arep = length [0::nat, 1] * length [0::nat, 1]
           \<and> (\<forall>i<length [0::nat, 1] * length [0::nat, 1].
                 v ! i = vlos22 ! ([0, 1] ! (i mod length [0::nat, 1]))
                           ! ([0, 1] ! (i div length [0::nat, 1]))
                 \<and> dv ! i = dvlos22 ! ([0, 1] ! (i mod length [0::nat, 1]))
                           ! ([0, 1] ! (i div length [0::nat, 1]))
                 \<and> Arep ! i = A22 ! ([0, 1] ! (i div length [0::nat, 1]))))"
proof -
  have h1: "truthy (Some 120)"
    by (simp add: truthy_def)
  have h2: "\<forall>t\<in>set [0, 1]. t < length vlos22 \<and> t < length dvlos22
         \<and> (\<forall>g\<in>set [0, 1]. g < length (vlos22 ! t) \<and> g < length (dvlos22 ! t))"
    by (simp add: vlos22_def dvlos22_def)
  have h3: "\<forall>g\<in>set [0, 1]. g < length A22"
    by (simp add: A22_def)
  have l: "length vlos22 = 2" "length dvlos22 = 2" "length A22 = 2"
    "length (vlos22 ! 0) = 2" "length (vlos22 ! 1) = 2"
    "length (dvlos22 ! 0) = 2" "length (dvlos22 ! 1) = 2"
    by (simp_all add: vlos22_def dvlos22_def A22_def)
  have ev: "vvels_args (Some 120) vlos22 dvlos22 A22 (Array [0, 1]) [0, 1]
       = Inr ([Fin 1, Fin 3, Fin 2, Fin 4], [Fin 5, Fin 7, Fin 6, Fin 8],
              [(Fin 1, Fin 0, Fin 0), (Fin 1, Fin 0, Fin 0),
               (Fin 0, Fin 1, Fin 0), (Fin 0, Fin 1, Fin 0)])"
    by (simp add: vvels_args_def select_flat_def take_rows_def get_row_def np_repeat_def
          truthy_def ebind_def vlos22_def dvlos22_def A22_def)
  from vvels_args_gate_major[OF h1 h2 h3] h1 l ev show ?thesis
    by blast
qed


lemma emap_Inr:
  "emap f xs = Inr ys \<Longrightarrow> length ys = length xs \<and> (\<forall>i<length xs. f (xs ! i) = Inr (ys ! i))"
proof (induction xs arbitrary: ys)
  case Nil
  then show ?case by simp
next
  case (Cons x xs)
  then obtain y ys' where y: "f x = Inr y" and ys': "emap f xs = Inr ys'" and ys: "ys = y # ys'"
    by (auto simp: ebind_def split: sum.splits)
  from Cons.IH[OF ys'] y ys show ?case by (auto simp: nth_Cons')
qed

lemma per_bin_nth:
  assumes "per_bin f Be3 X = Inr Y" and "t < length X" and "i < length (X ! t)"
    and "length (X ! t) = length Be3"
  shows "Y ! t ! i = f (Be3 ! i) (X ! t ! i)"
proof -
  from assms(1) have e: "emap (\<lambda>row. ebind (broadcast2 Be3 row)
                     (\<lambda>ps. Inr (map (\<lambda>(b, x). f b x) ps))) X = Inr Y"
    by (simp add: per_bin_def split: if_splits)
  from emap_Inr[OF e] assms(2)
  have "ebind (broadcast2 Be3 (X ! t)) (\<lambda>ps. Inr (map (\<lambda>(b, x). f b x) ps)) = Inr (Y ! t)"
    by simp
  with assms(4) have "Y ! t = map (\<lambda>(b, x). f b x) (zip Be3 (X ! t))"
    by (simp add: ebind_def broadcast2_def)
  with assms(3,4) show ?thesis by simp
qed

lemma efield_cell_finite:
  "efield_cell (Fin b) [Fin v1, Fin v2, Fin v3] = [Fin (- b * v2), Fin (b * v1), Fin 0]"
  by (simp add: efield_cell_def rotation_def fl_sum_def upt3)

lemma efield_cov_cell_finite:
  "efield_cov_cell (Fin b)
     (map (map Fin) [[s11, s12, s13], [s21, s22, s23], [s31, s32, s33]])
   = map (map Fin) (rmat_mul (rmat_mul (rotation_matrix b)
                      [[s11, s12, s13], [s21, s22, s23], [s31, s32, s33]])
                      (rtranspose (rotation_matrix b)))"
  by (simp add: efield_cov_cell_def einsum_jk_kl_ml_def rotation_def fl_sum_def upt3 upt_Suc3
        rmat_mul_def rtranspose_def rotation_matrix_def)

text \<open>
  C8. For every period and bin whose field magnitude \<open>Be3\<close> and velocity estimate
  \<open>(Ve1, Ve2, Ve3)\<close> are finite, the electric field that \<^verbatim>\<open>compute_vectors\<close> derives is
  \<open>(- Be3 Ve2, Be3 Ve1, 0)\<close> and its covariance is \<open>R \<Sigma>\<^sub>V R\<^sup>T\<close> with
  \<open>R = Be3 [[0,-1,0],[1,0,0],[0,0,0]]\<close>. So \<open>Ed1\<close> depends on \<open>Ve2\<close> only, \<open>Ed2\<close> on \<open>Ve1\<close>
  only, and a unit \<open>Be3\<close> with zero velocity gives the zero field.
\<close>

theorem electric_field_rotation:
  assumes cv: "compute_vectors inv_nf integration_time covar minnumpoints Be3 vlos dvlos Av
                 int_idx' bin_idx = Inr out"
    and bins: "length Be3 = length bin_idx"
    and t: "t < length int_idx'" and i: "i < length bin_idx"
    and b: "Be3 ! i = Fin b"
    and V: "Velocity out ! t ! i = [Fin v1, Fin v2, Fin v3]"
    and S: "VelocityCovariance out ! t ! i
              = map (map Fin) [[s11, s12, s13], [s21, s22, s23], [s31, s32, s33]]"
  shows "ElectricField out ! t ! i = [Fin (- b * v2), Fin (b * v1), Fin 0]
         \<and> ElectricFieldCovariance out ! t ! i
           = map (map Fin) (rmat_mul (rmat_mul (rotation_matrix b)
                              [[s11, s12, s13], [s21, s22, s23], [s31, s32, s33]])
                              (rtranspose (rotation_matrix b)))"
proof -
  from cv obtain cells where
    cells: "emap (\<lambda>tidx. emap (\<lambda>bidx.
                ebind (vvels_args integration_time vlos dvlos Av tidx bidx) (\<lambda>(v, dv, Arep).
                vvels inv_nf v dv Arep covar minnumpoints)) bin_idx) int_idx' = Inr cells"
    and rest: "ebind (per_bin efield_cell Be3 (map (map fst) cells)) (\<lambda>E.
     ebind (per_bin efield_cov_cell Be3 (map (map snd) cells)) (\<lambda>SigmaE.
     Inr \<lparr> Velocity = map (map fst) cells, VelocityCovariance = map (map snd) cells,
           ElectricField = E, ElectricFieldCovariance = SigmaE \<rparr>)) = Inr out"
    by (auto simp: compute_vectors_def ebind_def Let_def split: sum.splits)
  from rest obtain E SigmaE where
    E: "per_bin efield_cell Be3 (map (map fst) cells) = Inr E"
    and SE: "per_bin efield_cov_cell Be3 (map (map snd) cells) = Inr SigmaE"
    and out: "out = \<lparr> Velocity = map (map fst) cells, VelocityCovariance = map (map snd) cells,
           ElectricField = E, ElectricFieldCovariance = SigmaE \<rparr>"
    by (auto simp: ebind_def split: sum.splits)
  from emap_Inr[OF cells] t have lc: "length cells = length int_idx'"
    and row: "emap (\<lambda>bidx.
                ebind (vvels_args integration_time vlos dvlos Av (int_idx' ! t) bidx) (\<lambda>(v, dv, Arep).
                vvels inv_nf v dv Arep covar minnumpoints)) bin_idx = Inr (cells ! t)"
    by auto
  from emap_Inr[OF row] have lr: "length (cells ! t) = length bin_idx" by simp
  have e1: "E ! t ! i = efield_cell (Be3 ! i) (map (map fst) cells ! t ! i)"
    using per_bin_nth[OF E, of t i] t i lc lr bins by simp
  have e2: "SigmaE ! t ! i = efield_cov_cell (Be3 ! i) (map (map snd) cells ! t ! i)"
    using per_bin_nth[OF SE, of t i] t i lc lr bins by simp
  from e1 V b out have "ElectricField out ! t ! i = [Fin (- b * v2), Fin (b * v1), Fin 0]"
    by (simp add: efield_cell_finite)
  moreover from e2 S b out have "ElectricFieldCovariance out ! t ! i
           = map (map Fin) (rmat_mul (rmat_mul (rotation_matrix b)
                              [[s11, s12, s13], [s21, s22, s23], [s31, s32, s33]])
                              (rtranspose (rotation_matrix b)))"
    using efield_cov_cell_finite[of b s11 s12 s13 s21 s22 s23 s31 s32 s33] by simp
  ultimately show ?thesis by simp
qed


theorem electric_field_rotation_witness:
  "compute_vectors lapack_rejects None (Fin 1, Fin 1, Fin 1) 1 [Fin 2] [[Fin 1]] [[Fin 1]]
     [(Fin 1, Fin 0, Fin 0)] [Scalar 0] [[0]] = Inr cell_out
   \<and> length [Fin 2] = length [[0::nat]] \<and> 0 < length [Scalar 0] \<and> 0 < length [[0::nat]]
   \<and> [Fin 2] ! 0 = Fin 2
   \<and> Velocity cell_out ! 0 ! 0 = [Fin (1 / 2), Fin 0, Fin 0]
   \<and> VelocityCovariance cell_out ! 0 ! 0
       = map (map Fin) [[1 / 2, 0, 0], [0, 1, 0], [0, 0, 1]]
   \<and> ElectricField cell_out ! 0 ! 0 = [Fin (- 2 * 0), Fin (2 * (1 / 2)), Fin 0]
   \<and> ElectricFieldCovariance cell_out ! 0 ! 0
       = map (map Fin) (rmat_mul (rmat_mul (rotation_matrix 2)
                          [[1 / 2, 0, 0], [0, 1, 0], [0, 0, 1]])
                          (rtranspose (rotation_matrix 2)))"
proof -
  have cv: "compute_vectors lapack_rejects None (Fin 1, Fin 1, Fin 1) 1 [Fin 2] [[Fin 1]]
     [[Fin 1]] [(Fin 1, Fin 0, Fin 0)] [Scalar 0] [[0]] = Inr cell_out"
    by (simp add: compute_vectors_def vvels_args_def select_flat_def take_rows_def get_row_def
          truthy_def ebind_def per_bin_def broadcast2_def efield_cell_def efield_cov_cell_def
          rotation_def vvels_def vvels_try_def mask_def vec3_list_def nan3_def nan33_def
          cell_out_def eval_simps)
  have V: "Velocity cell_out ! 0 ! 0 = [Fin (1 / 2), Fin 0, Fin 0]"
    and S: "VelocityCovariance cell_out ! 0 ! 0
       = map (map Fin) [[1 / 2, 0, 0], [0, 1, 0], [0, 0, 1]]"
    by (simp_all add: cell_out_def)
  from electric_field_rotation[OF cv _ _ _ _ V S, where b = 2] cv V S show ?thesis
    by simp
qed

section \<open>Properties of \<^verbatim>\<open>lin_interp\<close> and \<^verbatim>\<open>ion_outflow_correction\<close>\<close>

lemma emap_total:
  "\<forall>x\<in>set xs. \<exists>y. f x = Inr y \<Longrightarrow> \<exists>ys. emap f xs = Inr ys"
  by (induction xs) (auto simp: ebind_def)

lemma length_ew2: "length (ew2 f xs ys) = min (length xs) (length ys)"
  by (simp add: ew2_def)

lemma getitem_valid:
  assumes "valid_index (length xs) i"
  shows "\<exists>y. getitem xs i = Inr y" and "\<exists>y. getitem xs (i + 1) = Inr y"
  using assms by (cases xs; auto simp: valid_index_def getitem_def)+

lemma brackets_bound: "j \<in> set (brackets xp xi) \<Longrightarrow> Suc j < length xp"
  by (auto simp: brackets_def)

lemma bracket_index_cases:
  assumes "xp \<noteq> []"
  shows "outside xp xi \<Longrightarrow> bracket_index xp xi = Inr (- 1)"
    and "\<not> outside xp xi \<Longrightarrow> brackets xp xi \<noteq> [] \<Longrightarrow>
           \<exists>j. bracket_index xp xi = Inr (int j) \<and> Suc j < length xp"
proof -
  from assms obtain a r where xp: "xp = a # r" by (cases xp) auto
  show "outside xp xi \<Longrightarrow> bracket_index xp xi = Inr (- 1)"
    by (simp add: outside_def bracket_index_def nanmin_def nanmax_def ebind_def xp)
  assume o: "\<not> outside xp xi" and b: "brackets xp xi \<noteq> []"
  then obtain j js where js: "brackets xp xi = j # js" by (cases "brackets xp xi") auto
  then have "j \<in> set (brackets xp xi)" by simp
  then have "Suc j < length xp" by (rule brackets_bound)
  moreover have "bracket_index xp xi = Inr (int j)"
    using o js by (simp add: outside_def bracket_index_def nanmin_def nanmax_def ebind_def xp)
  ultimately show "\<exists>j. bracket_index xp xi = Inr (int j) \<and> Suc j < length xp" by blast
qed

lemma lin_interp_outside:
  assumes xp: "xp \<noteq> []" and lf: "length fp = length xp" and ld: "length dfp = length xp"
    and br: "\<forall>xi\<in>set x. \<not> outside xp xi \<longrightarrow> brackets xp xi \<noteq> []"
    and x: "x \<noteq> []"
  shows "\<exists>f df. lin_interp x xp fp dfp = Inr (f, df) \<and> length f = length x
           \<and> length df = length x
           \<and> (\<forall>k<length x. outside xp (x ! k) \<longrightarrow> f ! k = NaN \<and> df ! k = NaN)"
proof -
  have "\<forall>xi\<in>set x. \<exists>i. bracket_index xp xi = Inr i"
    using bracket_index_cases[OF xp] br by blast
  then obtain i where i: "emap (bracket_index xp) x = Inr i"
    using emap_total by blast
  from emap_Inr[OF i] have li: "length i = length x"
    and ix: "\<forall>k<length x. bracket_index xp (x ! k) = Inr (i ! k)" by auto
  have ine: "i \<noteq> []" using li x by auto
  have val: "\<forall>v\<in>set i. valid_index (length xp) v"
  proof
    fix v assume "v \<in> set i"
    then obtain k where k: "k < length x" and v: "v = i ! k"
      using li by (auto simp: in_set_conv_nth)
    show "valid_index (length xp) v"
    proof (cases "outside xp (x ! k)")
      case True
      with bracket_index_cases(1)[OF xp] ix k v have "v = - 1" by auto
      with xp show ?thesis by (simp add: valid_index_def)
    next
      case False
      with br k have "brackets xp (x ! k) \<noteq> []" by simp
      from bracket_index_cases(2)[OF xp False this] ix k v
      show ?thesis by (auto simp: valid_index_def)
    qed
  qed
  have neg: "\<forall>k<length x. outside xp (x ! k) \<longrightarrow> i ! k < 0"
    using bracket_index_cases(1)[OF xp] ix by auto
  have g1: "\<forall>v\<in>set i. \<exists>y. getitem xp v = Inr y"
    using val getitem_valid(1) by blast
  have g2: "\<forall>v\<in>set (map (\<lambda>k. k + 1) i). \<exists>y. getitem xp v = Inr y"
    using val getitem_valid(2) by auto
  have g3: "\<forall>v\<in>set i. \<exists>y. getitem fp v = Inr y"
    using val getitem_valid(1)[of fp] lf by auto
  have g4: "\<forall>v\<in>set (map (\<lambda>k. k + 1) i). \<exists>y. getitem fp v = Inr y"
    using val getitem_valid(2)[of fp] lf by auto
  have g5: "\<forall>v\<in>set i. \<exists>y. getitem dfp v = Inr y"
    using val getitem_valid(1)[of dfp] ld by auto
  have g6: "\<forall>v\<in>set (map (\<lambda>k. k + 1) i). \<exists>y. getitem dfp v = Inr y"
    using val getitem_valid(2)[of dfp] ld by auto
  from emap_total[OF g1] obtain xp_i where a1: "emap (getitem xp) i = Inr xp_i" by blast
  from emap_total[OF g2] obtain xp_i1 where
    a2: "emap (getitem xp) (map (\<lambda>k. k + 1) i) = Inr xp_i1" by blast
  from emap_total[OF g3] obtain fp_i where a3: "emap (getitem fp) i = Inr fp_i" by blast
  from emap_total[OF g4] obtain fp_i1 where
    a4: "emap (getitem fp) (map (\<lambda>k. k + 1) i) = Inr fp_i1" by blast
  from emap_total[OF g5] obtain dfp_i where a5: "emap (getitem dfp) i = Inr dfp_i" by blast
  from emap_total[OF g6] obtain dfp_i1 where
    a6: "emap (getitem dfp) (map (\<lambda>k. k + 1) i) = Inr dfp_i1" by blast
  have l: "length xp_i = length x" "length xp_i1 = length x" "length fp_i = length x"
    "length fp_i1 = length x" "length dfp_i = length x" "length dfp_i1 = length x"
    using emap_Inr[OF a1] emap_Inr[OF a2] emap_Inr[OF a3] emap_Inr[OF a4] emap_Inr[OF a5]
      emap_Inr[OF a6] li by simp_all
  define X where "X = ew2 fl_div (ew2 fl_sub x xp_i) (ew2 fl_sub xp_i1 xp_i)"
  define F where "F = ew2 fl_add fp_i (ew2 fl_mul (ew2 fl_sub fp_i1 fp_i) X)"
  define DF where "DF = map fl_sqrt
                  (ew2 fl_add
                     (ew2 fl_mul (map (\<lambda>a. fl_sq (fl_sub (Fin 1) a)) X) (map fl_sq dfp_i))
                     (ew2 fl_mul (map fl_sq X) (map fl_sq dfp_i1)))"
  have lX: "length X = length x" by (simp add: X_def length_ew2 l)
  have lF: "length F = length x" by (simp add: F_def length_ew2 l lX)
  have lDF: "length DF = length x" by (simp add: DF_def length_ew2 l lX)
  have res: "lin_interp x xp fp dfp
        = Inr (map (\<lambda>(k, v). if k < 0 then NaN else v) (zip i F),
               map (\<lambda>(k, v). if k < 0 then NaN else v) (zip i DF))"
    using ine by (simp add: lin_interp_def i a1 a2 a3 a4 a5 a6 ebind_def Let_def X_def F_def DF_def)
  show ?thesis
    unfolding res using neg li lF lDF by auto
qed


lemma fl_mul_NaN [simp]: "fl_mul a NaN = NaN"
  by (cases a) simp_all

lemma fl_add_NaN [simp]: "fl_add a NaN = NaN"
  by (cases a) simp_all

lemma bc2_same_length:
  "length xs = length ys \<Longrightarrow> bc2 f xs ys = Inr (map (\<lambda>(a, b). f a b) (zip xs ys))"
  by (simp add: bc2_def broadcast2_def ebind_def)

lemma outflow_step_outside:
  assumes xp: "upB_alt upB \<noteq> []"
    and up: "t < length (upB_vlos upB)" "t < length (upB_dvlos upB)"
      "length (upB_vlos upB ! t) = length (upB_alt upB)"
      "length (upB_dvlos upB ! t) = length (upB_alt upB)"
    and br: "\<forall>xi\<in>set alt. \<not> outside (upB_alt upB) xi \<longrightarrow> brackets (upB_alt upB) xi \<noteq> []"
    and alt: "alt \<noteq> []"
    and DA: "length Dv = length alt" "length Av = length alt"
    and v: "t < length vlos" "length (vlos ! t) = length alt"
    and dv: "t < length dvlos" "length (dvlos ! t) = length alt"
  shows "\<exists>r1 r2. outflow_step alt upB Dv Av (vlos, dvlos) t = Inr (vlos[t := r1], dvlos[t := r2])
           \<and> length r1 = length alt \<and> length r2 = length alt
           \<and> (\<forall>k<length alt. outside (upB_alt upB) (alt ! k) \<longrightarrow> r1 ! k = NaN \<and> r2 ! k = NaN)"
proof -
  from lin_interp_outside[OF xp up(3) up(4) br alt]
  obtain f df where li: "lin_interp alt (upB_alt upB) (upB_vlos upB ! t) (upB_dvlos upB ! t)
                          = Inr (f, df)"
    and lf: "length f = length alt" and ldf: "length df = length alt"
    and nan: "\<forall>k<length alt. outside (upB_alt upB) (alt ! k) \<longrightarrow> f ! k = NaN \<and> df ! k = NaN"
    by blast
  define A2 where "A2 = map (\<lambda>(a, b, c). c) Av"
  define r1 where "r1 = map (\<lambda>(a, b). fl_add a b) (zip (vlos ! t)
                    (map (\<lambda>(a, b). fl_mul a b) (zip (map (\<lambda>(a, b). fl_mul a b) (zip Dv A2)) f)))"
  define r2 where "r2 = map fl_sqrt (map (\<lambda>(a, b). fl_add a b) (zip (map fl_sq (dvlos ! t))
                    (map (\<lambda>(a, b). fl_mul a b)
                       (zip (map (\<lambda>(a, b). fl_mul a b) (zip (map fl_sq Dv) (map fl_sq A2)))
                            (map fl_sq df)))))"
  have lA2: "length A2 = length alt" using DA by (simp add: A2_def)
  have l1: "length r1 = length alt" using lA2 DA lf v by (simp add: r1_def)
  have l2: "length r2 = length alt" using lA2 DA ldf dv by (simp add: r2_def)
  have eq: "outflow_step alt upB Dv Av (vlos, dvlos) t = Inr (vlos[t := r1], dvlos[t := r2])"
    using up v dv DA lf ldf
    by (simp add: outflow_step_def get_row_def ebind_def li bc2_same_length set_row_def
          Let_def A2_def r1_def r2_def)
  have "\<forall>k<length alt. outside (upB_alt upB) (alt ! k) \<longrightarrow> r1 ! k = NaN \<and> r2 ! k = NaN"
  proof (intro allI impI)
    fix k assume k: "k < length alt" and o: "outside (upB_alt upB) (alt ! k)"
    with nan have fk: "f ! k = NaN" "df ! k = NaN" by auto
    have "r1 ! k = NaN" using k lA2 DA lf v fk by (simp add: r1_def)
    moreover have "r2 ! k = NaN" using k lA2 DA ldf dv fk by (simp add: r2_def fl_sq_def)
    ultimately show "r1 ! k = NaN \<and> r2 ! k = NaN" by simp
  qed
  with eq l1 l2 show ?thesis by blast
qed

lemma outflow_loop_outside:
  assumes xp: "upB_alt upB \<noteq> []"
    and up: "\<forall>t\<in>set ts. t < length (upB_vlos upB) \<and> t < length (upB_dvlos upB)
               \<and> length (upB_vlos upB ! t) = length (upB_alt upB)
               \<and> length (upB_dvlos upB ! t) = length (upB_alt upB)"
    and br: "\<forall>xi\<in>set alt. \<not> outside (upB_alt upB) xi \<longrightarrow> brackets (upB_alt upB) xi \<noteq> []"
    and alt: "alt \<noteq> []"
    and DA: "length Dv = length alt" "length Av = length alt"
    and ts: "distinct ts" "\<forall>t\<in>set ts. t < n"
    and sh: "length vlos = n" "\<forall>t<n. length (vlos ! t) = length alt"
      "length dvlos = n" "\<forall>t<n. length (dvlos ! t) = length alt"
  shows "\<exists>vlos' dvlos'. efoldl (outflow_step alt upB Dv Av) (vlos, dvlos) ts = Inr (vlos', dvlos')
           \<and> (\<forall>t\<in>set ts. \<forall>k<length alt. outside (upB_alt upB) (alt ! k) \<longrightarrow>
                 vlos' ! t ! k = NaN \<and> dvlos' ! t ! k = NaN)
           \<and> (\<forall>t<n. t \<notin> set ts \<longrightarrow> vlos' ! t = vlos ! t \<and> dvlos' ! t = dvlos ! t)"
  using up ts sh
proof (induction ts arbitrary: vlos dvlos)
  case Nil
  then show ?case by simp
next
  case (Cons t ts)
  have t: "t < n" using Cons.prems by simp
  from Cons.prems have upt: "t < length (upB_vlos upB)" "t < length (upB_dvlos upB)"
      "length (upB_vlos upB ! t) = length (upB_alt upB)"
      "length (upB_dvlos upB ! t) = length (upB_alt upB)" by simp_all
  from Cons.prems t have vt: "t < length vlos" "length (vlos ! t) = length alt"
    "t < length dvlos" "length (dvlos ! t) = length alt" by simp_all
  from outflow_step_outside[OF xp upt br alt DA vt]
  obtain r1 r2 where
    st: "outflow_step alt upB Dv Av (vlos, dvlos) t = Inr (vlos[t := r1], dvlos[t := r2])"
    and l: "length r1 = length alt" "length r2 = length alt"
    and nan: "\<forall>k<length alt. outside (upB_alt upB) (alt ! k) \<longrightarrow> r1 ! k = NaN \<and> r2 ! k = NaN"
    by blast
  have sh1: "length (vlos[t := r1]) = n" "\<forall>u<n. length (vlos[t := r1] ! u) = length alt"
    "length (dvlos[t := r2]) = n" "\<forall>u<n. length (dvlos[t := r2] ! u) = length alt"
    using Cons.prems l by (simp_all add: nth_list_update)
  have up': "\<forall>t\<in>set ts. t < length (upB_vlos upB) \<and> t < length (upB_dvlos upB)
               \<and> length (upB_vlos upB ! t) = length (upB_alt upB)
               \<and> length (upB_dvlos upB ! t) = length (upB_alt upB)"
    using Cons.prems(1) by simp
  have ts': "distinct ts" "\<forall>t\<in>set ts. t < n" using Cons.prems by simp_all
  from Cons.IH[OF up' ts' sh1]
  obtain vlos' dvlos' where
    f: "efoldl (outflow_step alt upB Dv Av) (vlos[t := r1], dvlos[t := r2]) ts
          = Inr (vlos', dvlos')"
    and n1: "\<forall>t\<in>set ts. \<forall>k<length alt. outside (upB_alt upB) (alt ! k) \<longrightarrow>
                 vlos' ! t ! k = NaN \<and> dvlos' ! t ! k = NaN"
    and n2: "\<forall>u<n. u \<notin> set ts \<longrightarrow> vlos' ! u = vlos[t := r1] ! u \<and> dvlos' ! u = dvlos[t := r2] ! u"
    by blast
  have tn: "t \<notin> set ts" using Cons.prems by simp
  have rowt: "vlos' ! t = r1" "dvlos' ! t = r2"
    using n2 t tn vt by simp_all
  have "efoldl (outflow_step alt upB Dv Av) (vlos, dvlos) (t # ts) = Inr (vlos', dvlos')"
    using st f by (simp add: ebind_def)
  moreover have "\<forall>u\<in>set (t # ts). \<forall>k<length alt. outside (upB_alt upB) (alt ! k) \<longrightarrow>
                 vlos' ! u ! k = NaN \<and> dvlos' ! u ! k = NaN"
    using n1 nan rowt by auto
  moreover have "\<forall>u<n. u \<notin> set (t # ts) \<longrightarrow> vlos' ! u = vlos ! u \<and> dvlos' ! u = dvlos ! u"
    using n2 by (auto simp: nth_list_update)
  ultimately show ?case by blast
qed

text \<open>
  C7, amended. Let the up-B altitude sequence be non-empty, let its rows of velocities and
  errors have its length, and let every gate altitude inside the range have a bracketing
  pair (as it has when the sequence increases). Then for every gate altitude outside the
  range, \<^verbatim>\<open>lin_interp\<close> returns NaN for the value and for the error, and
  \<^verbatim>\<open>ion_outflow_correction\<close> (with an up-B beam set) returns corrected arrays whose LoS
  velocity and error are NaN at that gate, for every time record; nothing is raised.
\<close>

theorem outflow_out_of_range_nan:
  assumes code: "upB_beamcode \<noteq> None" "upB_beamcode \<noteq> Some 0"
    and xp: "upB_alt upB \<noteq> []"
    and up: "has_shape (length time) (length (upB_alt upB)) (upB_vlos upB)"
      "has_shape (length time) (length (upB_alt upB)) (upB_dvlos upB)"
    and sh: "has_shape (length time) (length alt) vlos"
      "has_shape (length time) (length alt) dvlos"
    and DA: "length Dv = length alt" "length Av = length alt"
    and br: "\<forall>xi\<in>set alt. \<not> outside (upB_alt upB) xi \<longrightarrow> brackets (upB_alt upB) xi \<noteq> []"
    and t: "t < length time" and k: "k < length alt"
    and out: "outside (upB_alt upB) (alt ! k)"
  shows "\<exists>f df vlos' dvlos'.
           lin_interp alt (upB_alt upB) (upB_vlos upB ! t) (upB_dvlos upB ! t) = Inr (f, df)
           \<and> f ! k = NaN \<and> df ! k = NaN
           \<and> ion_outflow_correction upB_beamcode time alt upB Dv Av (vlos, dvlos)
               = Inr (vlos', dvlos')
           \<and> vlos' ! t ! k = NaN \<and> dvlos' ! t ! k = NaN"
proof -
  have alt: "alt \<noteq> []" using k by auto
  have upl: "\<forall>t\<in>set [0..<length time]. t < length (upB_vlos upB) \<and> t < length (upB_dvlos upB)
               \<and> length (upB_vlos upB ! t) = length (upB_alt upB)
               \<and> length (upB_dvlos upB ! t) = length (upB_alt upB)"
    using up by (auto simp: has_shape_def)
  from upl t have upt: "length (upB_vlos upB ! t) = length (upB_alt upB)"
      "length (upB_dvlos upB ! t) = length (upB_alt upB)" by simp_all
  from lin_interp_outside[OF xp upt br alt] k out
  obtain f df where 1: "lin_interp alt (upB_alt upB) (upB_vlos upB ! t) (upB_dvlos upB ! t)
                          = Inr (f, df)" "f ! k = NaN" "df ! k = NaN"
    by blast
  have shl: "length vlos = length time" "\<forall>t<length time. length (vlos ! t) = length alt"
      "length dvlos = length time" "\<forall>t<length time. length (dvlos ! t) = length alt"
    using sh by (auto simp: has_shape_def)
  from outflow_loop_outside[OF xp upl br alt DA _ _ shl]
  obtain vlos' dvlos' where
    "efoldl (outflow_step alt upB Dv Av) (vlos, dvlos) [0..<length time] = Inr (vlos', dvlos')"
    and "\<forall>t\<in>set [0..<length time]. \<forall>k<length alt. outside (upB_alt upB) (alt ! k) \<longrightarrow>
                 vlos' ! t ! k = NaN \<and> dvlos' ! t ! k = NaN"
    by auto
  with code t k out have "ion_outflow_correction upB_beamcode time alt upB Dv Av (vlos, dvlos)
               = Inr (vlos', dvlos')" "vlos' ! t ! k = NaN" "dvlos' ! t ! k = NaN"
    by (simp_all add: ion_outflow_correction_def)
  with 1 show ?thesis by blast
qed

text \<open>
  C7, as stated, fails in two ways. With an empty up-B altitude sequence \<^verbatim>\<open>np.nanmin\<close>
  raises \<^verbatim>\<open>ValueError\<close> for any target. And a target outside the range gets no result when
  another target, inside the range, has no bracketing pair (here 2 in \<open>[1, NaN, 3]\<close>): the
  call raises \<^verbatim>\<open>IndexError\<close>.
\<close>

theorem lin_interp_raises_counterexample:
  "outside [] (Fin 1) \<and> lin_interp [Fin 1] [] [] [] = Inl ValueError
   \<and> outside [Fin 1, NaN, Fin 3] (Fin 5)
   \<and> lin_interp [Fin 5, Fin 2] [Fin 1, NaN, Fin 3] [Fin 0, Fin 0, Fin 0] [Fin 0, Fin 0, Fin 0]
       = Inl IndexError"
  by (simp add: outside_def lin_interp_def bracket_index_def brackets_def nanmin_def nanmax_def
        ebind_def in_range_def fl_ge_def fl_fmin_def fl_fmax_def upt2 upt_Suc2)


theorem outflow_out_of_range_nan_witness:
  "Some (64157::int) \<noteq> None \<and> Some (64157::int) \<noteq> Some 0
   \<and> upB_alt upB1 \<noteq> []
   \<and> has_shape (length [(0::real, 60::real)]) (length (upB_alt upB1)) (upB_vlos upB1)
   \<and> has_shape (length [(0::real, 60::real)]) (length (upB_alt upB1)) (upB_dvlos upB1)
   \<and> has_shape (length [(0::real, 60::real)]) (length alt1) [[Fin 5, Fin 5]]
   \<and> has_shape (length [(0::real, 60::real)]) (length alt1) [[Fin 2, Fin 2]]
   \<and> length [Fin 1, Fin 1] = length alt1 \<and> length kz1 = length alt1
   \<and> alt1 = [Fin 150, Fin 500]
   \<and> brackets (upB_alt upB1) (Fin 150) \<noteq> []
   \<and> 0 < length [(0::real, 60::real)] \<and> 1 < length alt1
   \<and> outside (upB_alt upB1) (alt1 ! 1)
   \<and> (\<exists>f df vlos' dvlos'.
           lin_interp alt1 (upB_alt upB1) (upB_vlos upB1 ! 0) (upB_dvlos upB1 ! 0) = Inr (f, df)
           \<and> f ! 1 = NaN \<and> df ! 1 = NaN
           \<and> ion_outflow_correction (Some 64157) [(0, 60)] alt1 upB1 [Fin 1, Fin 1] kz1
               ([[Fin 5, Fin 5]], [[Fin 2, Fin 2]]) = Inr (vlos', dvlos')
           \<and> vlos' ! 0 ! 1 = NaN \<and> dvlos' ! 0 ! 1 = NaN)"
proof -
  have h3: "upB_alt upB1 \<noteq> []"
    by (simp add: upB1_def)
  have h4: "has_shape (length [(0::real, 60::real)]) (length (upB_alt upB1)) (upB_vlos upB1)"
    and h5: "has_shape (length [(0::real, 60::real)]) (length (upB_alt upB1)) (upB_dvlos upB1)"
    and h6: "has_shape (length [(0::real, 60::real)]) (length alt1) [[Fin 5, Fin 5]]"
    and h7: "has_shape (length [(0::real, 60::real)]) (length alt1) [[Fin 2, Fin 2]]"
    by (simp_all add: has_shape_def upB1_def alt1_def)
  have h8: "length [Fin 1, Fin 1] = length alt1" and h9: "length kz1 = length alt1"
    by (simp_all add: alt1_def kz1_def)
  have b: "brackets (upB_alt upB1) (Fin 150) \<noteq> []"
    by (simp add: upB1_def brackets_def fl_ge_def upt2 upt_Suc2)
  have h13: "outside (upB_alt upB1) (alt1 ! 1)"
    by (simp add: outside_def alt1_def upB1_def nanmin_def nanmax_def in_range_def fl_ge_def
          fl_fmin_def fl_fmax_def)
  have h10: "\<forall>xi\<in>set alt1. \<not> outside (upB_alt upB1) xi \<longrightarrow> brackets (upB_alt upB1) xi \<noteq> []"
    using b h13 by (simp add: alt1_def)
  have h11: "0 < length [(0::real, 60::real)]" and h12: "1 < length alt1"
    by (simp_all add: alt1_def)
  from outflow_out_of_range_nan[OF _ _ h3 h4 h5 h6 h7 h8 h9 h10 h11 h12 h13,
         of "Some 64157"]
    h3 h4 h5 h6 h7 h8 h9 b h11 h12 h13 alt1_def
  show ?thesis by simp
qed

lemma fl_lt_not_nan: "fl_lt a b \<Longrightarrow> \<not> isnan a \<and> \<not> isnan b"
  by (cases a; cases b) simp_all

lemma fl_lt_asym: "fl_lt a b \<Longrightarrow> \<not> fl_lt b a"
  by (cases a; cases b) simp_all

lemma fl_lt_irrefl: "\<not> fl_lt a a"
  by (cases a) simp_all

lemma foldl_fmin_least: "\<forall>y\<in>set r. fl_lt a y \<Longrightarrow> foldl fl_fmin a r = a"
proof (induction r)
  case Nil
  then show ?case by simp
next
  case (Cons y r)
  then have "fl_lt a y" by simp
  then have "fl_fmin a y = a"
    using fl_lt_not_nan[of a y] fl_lt_asym[of a y] by (simp add: fl_fmin_def)
  with Cons show ?case by simp
qed

lemma foldl_fmax_last: "sorted_wrt fl_lt (a # r) \<Longrightarrow> foldl fl_fmax a r = last (a # r)"
proof (induction r arbitrary: a)
  case Nil
  then show ?case by simp
next
  case (Cons y r)
  then have "fl_lt a y" by simp
  then have "fl_fmax a y = y"
    using fl_lt_not_nan[of a y] by (simp add: fl_fmax_def)
  moreover have "sorted_wrt fl_lt (y # r)" using Cons.prems by simp
  ultimately show ?case using Cons.IH[of y] by simp
qed

lemma increasing_range:
  assumes "sorted_wrt fl_lt xp" and "xp \<noteq> []"
  shows "nanmin xp = Inr (hd xp)" and "nanmax xp = Inr (last xp)"
proof -
  from assms obtain a r where xp: "xp = a # r" by (cases xp) auto
  with assms have "\<forall>y\<in>set r. fl_lt a y" by simp
  then show "nanmin xp = Inr (hd xp)" by (simp add: xp nanmin_def foldl_fmin_least)
  show "nanmax xp = Inr (last xp)"
    using foldl_fmax_last[of a r] assms by (simp add: xp nanmax_def)
qed

lemma bracket_exists:
  assumes "sorted_wrt fl_lt xp" and "xp \<noteq> []" and "fl_ge xi (hd xp)" and "fl_lt xi (last xp)"
  shows "\<exists>j. Suc j < length xp \<and> fl_ge xi (xp ! j) \<and> fl_lt xi (xp ! Suc j)"
  using assms
proof (induction xp)
  case Nil
  then show ?case by simp
next
  case (Cons a r)
  show ?case
  proof (cases r)
    case Nil
    with Cons.prems have "fl_ge xi a" "fl_lt xi a" by simp_all
    then show ?thesis by (simp add: fl_ge_def)
  next
    case (Cons b r')
    show ?thesis
    proof (cases "fl_lt xi b")
      case True
      with Cons.prems(3) Cons show ?thesis by (intro exI[of _ 0]) simp
    next
      case False
      have nb: "\<not> isnan b" using Cons.prems(1) Cons fl_lt_not_nan[of a b] by simp
      have nx: "\<not> isnan xi" using Cons.prems(3) by (simp add: fl_ge_def)
      have ge: "fl_ge xi (hd r)" using False nb nx Cons by (simp add: fl_ge_def)
      have "sorted_wrt fl_lt r" "r \<noteq> []" "fl_lt xi (last r)"
        using Cons.prems Cons by simp_all
      from Cons.IH[OF this(1) this(2) ge this(3)]
      obtain j where "Suc j < length r" "fl_ge xi (r ! j)" "fl_lt xi (r ! Suc j)" by blast
      then show ?thesis by (intro exI[of _ "Suc j"]) simp
    qed
  qed
qed

lemma increasing_bracketed:
  assumes "sorted_wrt fl_lt xp" and "xp \<noteq> []" and "\<not> outside xp xi"
  shows "brackets xp xi \<noteq> []"
proof -
  from assms have "fl_ge xi (hd xp)" "fl_lt xi (last xp)"
    by (simp_all add: outside_def increasing_range in_range_def)
  from bracket_exists[OF assms(1,2) this]
  obtain j where j: "Suc j < length xp" "fl_ge xi (xp ! j)" "fl_lt xi (xp ! Suc j)" by blast
  then have "j \<in> set (brackets xp xi)" by (auto simp: brackets_def)
  then show ?thesis by auto
qed

text \<open>
  C10. For a strictly increasing up-B altitude sequence with at least two elements (and
  velocity and error rows of its length), its maximum is its last element, and a target
  equal to it gets NaN for the interpolated value and for its error: the interpolation
  domain is half-open.
\<close>

theorem lin_interp_upper_endpoint:
  assumes inc: "sorted_wrt fl_lt xp" and two: "2 \<le> length xp"
    and lf: "length fp = length xp" and ld: "length dfp = length xp"
    and k: "k < length x" and top: "x ! k = last xp"
  shows "nanmax xp = Inr (last xp)
         \<and> (\<exists>f df. lin_interp x xp fp dfp = Inr (f, df) \<and> f ! k = NaN \<and> df ! k = NaN)"
proof -
  have xp: "xp \<noteq> []" using two by auto
  have x: "x \<noteq> []" using k by auto
  have out: "outside xp (x ! k)"
    using top by (simp add: outside_def increasing_range[OF inc xp] in_range_def fl_lt_irrefl)
  have br: "\<forall>xi\<in>set x. \<not> outside xp xi \<longrightarrow> brackets xp xi \<noteq> []"
    using increasing_bracketed[OF inc xp] by blast
  from lin_interp_outside[OF xp lf ld br x] k out increasing_range(2)[OF inc xp]
  show ?thesis by blast
qed

theorem lin_interp_upper_endpoint_witness:
  "sorted_wrt fl_lt [Fin 100, Fin 200, Fin 300] \<and> 2 \<le> length [Fin 100, Fin 200, Fin 300]
   \<and> length [Fin 10, Fin 20, Fin 30] = length [Fin 100, Fin 200, Fin 300]
   \<and> length [Fin 1, Fin 1, Fin 1] = length [Fin 100, Fin 200, Fin 300]
   \<and> 1 < length [Fin 150, Fin 300] \<and> [Fin 150, Fin 300] ! 1 = last [Fin 100, Fin 200, Fin 300]
   \<and> lin_interp [Fin 150, Fin 300] [Fin 100, Fin 200, Fin 300] [Fin 10, Fin 20, Fin 30]
       [Fin 1, Fin 1, Fin 1] = Inr ([Fin 15, NaN], [Fin (sqrt (1 / 2)), NaN])
   \<and> nanmax [Fin 100, Fin 200, Fin 300] = Inr (last [Fin 100, Fin 200, Fin 300])
   \<and> (\<exists>f df. lin_interp [Fin 150, Fin 300] [Fin 100, Fin 200, Fin 300] [Fin 10, Fin 20, Fin 30]
               [Fin 1, Fin 1, Fin 1] = Inr (f, df) \<and> f ! 1 = NaN \<and> df ! 1 = NaN)"
proof -
  have ev: "lin_interp [Fin 150, Fin 300] [Fin 100, Fin 200, Fin 300] [Fin 10, Fin 20, Fin 30]
       [Fin 1, Fin 1, Fin 1] = Inr ([Fin 15, NaN], [Fin (sqrt (1 / 2)), NaN])"
    by (simp add: lin_interp_def bracket_index_def brackets_def nanmin_def nanmax_def
          ebind_def in_range_def fl_ge_def fl_fmin_def fl_fmax_def upt2 upt_Suc2 getitem_def
          ew2_def fl_sub_def fl_sq_def Let_def)
  from lin_interp_upper_endpoint[of "[Fin 100, Fin 200, Fin 300]" "[Fin 10, Fin 20, Fin 30]"
         "[Fin 1, Fin 1, Fin 1]" 1 "[Fin 150, Fin 300]"] ev
  show ?thesis by simp
qed

section \<open>Properties of \<^verbatim>\<open>transform\<close>\<close>

lemma length_filter_index:
  "length (filter (\<lambda>i. P (xs ! i)) [0..<length xs]) = length (filter P xs)"
proof -
  have "filter P (map (\<lambda>i. xs ! i) [0..<length xs])
          = map (\<lambda>i. xs ! i) (filter (\<lambda>i. P (xs ! i)) [0..<length xs])"
    by (simp add: filter_map comp_def)
  then have "length (filter P (map (\<lambda>i. xs ! i) [0..<length xs]))
          = length (filter (\<lambda>i. P (xs ! i)) [0..<length xs])"
    by simp
  then show ?thesis by (simp add: map_nth)
qed

lemma filter_index_snoc:
  "filter (\<lambda>i. P ((xs @ [x]) ! i)) [0..<length (xs @ [x])]
     = filter (\<lambda>i. P (xs ! i)) [0..<length xs] @ (if P x then [length xs] else [])"
proof -
  have "filter (\<lambda>i. P ((xs @ [x]) ! i)) [0..<length xs] = filter (\<lambda>i. P (xs ! i)) [0..<length xs]"
    by (rule filter_cong) (simp_all add: nth_append)
  then show ?thesis by simp
qed

lemma replace_nans_snoc:
  "replace_nans_of (alt @ [x])
     = replace_nans_of alt
       @ (if isnan x then [length (filter (\<lambda>a. \<not> isnan a) alt)] else [])"
proof -
  have n: "length alt - length (filter isnan alt) = length (filter (\<lambda>a. \<not> isnan a) alt)"
    using sum_length_filter_compl[of isnan alt] by simp
  show ?thesis
    unfolding replace_nans_of_def filter_index_snoc[of isnan alt x]
    by (simp add: enumerate_append_eq length_filter_index n)
qed

lemma replace_nans_bound:
  "\<forall>p\<in>set (replace_nans_of alt). p \<le> length (filter (\<lambda>a. \<not> isnan a) alt)"
proof (induction alt rule: rev_induct)
  case Nil
  then show ?case by (simp add: replace_nans_of_def)
next
  case (snoc x alt)
  then show ?case by (auto simp: replace_nans_snoc)
qed

lemma count_list_zero: "\<forall>p\<in>set xs. p < (q::nat) \<Longrightarrow> count_list xs q = 0"
  by (induction xs) auto

lemma count_list_append: "count_list (xs @ ys) q = count_list xs q + count_list ys q"
  by (induction xs) auto


lemma present_snoc:
  "present (alt @ [x]) = present alt @ (if isnan x then [] else [length alt])"
  unfolding present_def using filter_index_snoc[of "\<lambda>a. \<not> isnan a" alt x] by simp

lemma length_present: "length (present alt) = length (filter (\<lambda>a. \<not> isnan a) alt)"
  unfolding present_def by (rule length_filter_index)

lemma insert_restores:
  "np_insert (map G (present alt)) (replace_nans_of alt) v
     = Inr (map (\<lambda>i. if isnan (alt ! i) then v else G i) [0..<length alt])"
proof (induction alt rule: rev_induct)
  case Nil
  then show ?case by (simp add: np_insert_def present_def replace_nans_of_def)
next
  case (snoc x alt)
  let ?a = "map G (present alt)"
  let ?idx = "replace_nans_of alt"
  let ?n = "length (present alt)"
  have bnd: "\<forall>p\<in>set ?idx. p \<le> ?n"
    using replace_nans_bound[of alt] by (simp add: length_present)
  from snoc.IH have ok: "\<not> (\<exists>p\<in>set ?idx. length ?a < p)"
    and IH: "concat (map (\<lambda>p. replicate (count_list ?idx p) v @ [?a ! p]) [0..<length ?a])
               @ replicate (count_list ?idx (length ?a)) v
             = map (\<lambda>i. if isnan (alt ! i) then v else G i) [0..<length alt]"
    by (auto simp: np_insert_def split: if_splits)
  have tgt: "map (\<lambda>i. if isnan ((alt @ [x]) ! i) then v else G i) [0..<length (alt @ [x])]
           = map (\<lambda>i. if isnan (alt ! i) then v else G i) [0..<length alt]
             @ [if isnan x then v else G (length alt)]"
    by (simp add: nth_append)
  show ?case
  proof (cases "isnan x")
    case True
    have pa: "present (alt @ [x]) = present alt" using True by (simp add: present_snoc)
    have ri: "replace_nans_of (alt @ [x]) = ?idx @ [?n]"
      using True by (simp add: replace_nans_snoc length_present)
    have blocks: "map (\<lambda>p. replicate (count_list (?idx @ [?n]) p) v @ [?a ! p]) [0..<length ?a]
                = map (\<lambda>p. replicate (count_list ?idx p) v @ [?a ! p]) [0..<length ?a]"
      by (rule map_cong) (simp_all add: count_list_append)
    have c: "count_list (?idx @ [?n]) (length ?a) = Suc (count_list ?idx (length ?a))"
      by (simp add: count_list_append)
    have "np_insert ?a (?idx @ [?n]) v
            = Inr ((concat (map (\<lambda>p. replicate (count_list ?idx p) v @ [?a ! p]) [0..<length ?a])
                    @ replicate (count_list ?idx (length ?a)) v) @ [v])"
      unfolding np_insert_def blocks c using bnd
      by (auto simp: replicate_append_same)
    then show ?thesis
      unfolding pa ri IH tgt using True by simp
  next
    case False
    have pa: "present (alt @ [x]) = present alt @ [length alt]"
      using False by (simp add: present_snoc)
    have ri: "replace_nans_of (alt @ [x]) = ?idx" using False by (simp add: replace_nans_snoc)
    let ?a' = "map G (present alt) @ [G (length alt)]"
    have blocks: "map (\<lambda>p. replicate (count_list ?idx p) v @ [?a' ! p]) [0..<length ?a]
                = map (\<lambda>p. replicate (count_list ?idx p) v @ [?a ! p]) [0..<length ?a]"
      by (rule map_cong) (simp_all add: nth_append)
    have z: "count_list ?idx (Suc ?n) = 0"
      using bnd by (intro count_list_zero) auto
    have la: "[0..<length ?a'] = [0..<length ?a] @ [?n]" by simp
    have "np_insert ?a' ?idx v
            = Inr ((concat (map (\<lambda>p. replicate (count_list ?idx p) v @ [?a ! p]) [0..<length ?a])
                    @ replicate (count_list ?idx (length ?a)) v) @ [G (length alt)])"
      unfolding np_insert_def la map_append blocks using bnd z
      by (auto simp: nth_append)
    then show ?thesis
      unfolding pa ri IH tgt using False by simp
  qed
qed


lemma finite_part_index:
  "finite_part xs = map (\<lambda>i. the_real (xs ! i)) (filter (\<lambda>i. isfinite (xs ! i)) [0..<length xs])"
proof (induction xs rule: rev_induct)
  case Nil
  then show ?case by (simp add: finite_part_def map_filter_def)
next
  case (snoc x xs)
  have m: "map (\<lambda>i. the_real ((xs @ [x]) ! i)) (filter (\<lambda>i. isfinite (xs ! i)) [0..<length xs])
         = map (\<lambda>i. the_real (xs ! i)) (filter (\<lambda>i. isfinite (xs ! i)) [0..<length xs])"
    by (rule map_cong) (auto simp: nth_append)
  have "finite_part (xs @ [x]) = finite_part xs @ (if isfinite x then [the_real x] else [])"
    by (cases x) (simp_all add: finite_part_def map_filter_def)
  then show ?case
    unfolding filter_index_snoc[of isfinite xs x] snoc.IH using m by simp
qed

lemma finite_part_present:
  assumes "length xs = length alt"
    and "\<forall>i<length alt. isfinite (xs ! i) \<longleftrightarrow> \<not> isnan (alt ! i)"
  shows "finite_part xs = map (\<lambda>i. the_real (xs ! i)) (present alt)"
proof -
  have "filter (\<lambda>i. isfinite (xs ! i)) [0..<length xs] = present alt"
    unfolding present_def using assms by (intro filter_cong) auto
  then show ?thesis by (simp add: finite_part_index)
qed

lemma broadcast3_same:
  "broadcast3 (map f is) (map g is) (map h is) = Inr (map (\<lambda>i. (f i, g i, h i)) is)"
  by (induction "is") (auto simp: broadcast3_def broadcast2_def ebind_def)


lemma dot3_nanvec: "dot3 k (NaN, NaN, NaN) = NaN"
  by (cases k) (simp add: dot3_def fl_sum_def)

lemma cross3_nanvec: "cross3 (NaN, NaN, NaN) (NaN, NaN, NaN) = (NaN, NaN, NaN)"
  by (simp add: cross3_def fl_sub_def)

text \<open>
  C6, amended. Let there be a time record, let the six geometry arrays have one length, let
  every gate have either a NaN altitude with non-finite latitude and longitude or three
  finite coordinates, and let some gate be of the first kind. Then \<^verbatim>\<open>transform\<close> raises
  nothing; the geomagnetic model receives exactly the positions of the finite gates, in
  order; \<^verbatim>\<open>mlat\<close>, \<^verbatim>\<open>mlon\<close>, \<^verbatim>\<open>A\<close> and \<^verbatim>\<open>D\<close> have the length of the input; they are NaN at
  the gates with NaN altitude, and at every other gate they hold what the model gives for
  that gate's own position.
\<close>

theorem transform_keeps_alignment:
  assumes time: "time \<noteq> []"
    and len: "length lat = length alt" "length lon = length alt"
      "length ke = length alt" "length kn = length alt" "length kz = length alt"
    and gates: "\<forall>i<length alt. aligned_gate (lat ! i) (lon ! i) (alt ! i)"
    and some: "\<exists>i<length alt. isnan (alt ! i)"
  shows "\<exists>out.
           transform geo2apex basevectors_apex time lat lon alt ke kn kz = Inr out
           \<and> broadcast3 (finite_part lat) (finite_part lon) (map (\<lambda>a. a / 1000) (finite_part alt))
               = Inr (map (position lat lon alt) (present alt))
           \<and> length (self_mlat out) = length alt \<and> length (self_mlon out) = length alt
           \<and> length (self_A out) = length alt \<and> length (self_D out) = length alt
           \<and> (\<forall>i<length alt.
                 (isnan (alt ! i) \<longrightarrow>
                    self_mlat out ! i = NaN \<and> self_mlon out ! i = NaN
                    \<and> self_A out ! i = nanvec \<and> self_D out ! i = NaN)
                 \<and> (\<not> isnan (alt ! i) \<longrightarrow>
                    self_mlat out ! i = Fin (fst (apex_at geo2apex time lat lon alt i))
                    \<and> self_mlon out ! i = Fin (snd (apex_at geo2apex time lat lon alt i))
                    \<and> self_A out ! i
                        = gate_A (ke ! i, kn ! i, kz ! i)
                            (base_at basevectors_apex time lat lon alt i)
                    \<and> self_D out ! i = gate_D (base_at basevectors_apex time lat lon alt i)))"
proof -
  let ?P = "present alt"
  let ?M = "length alt"
  have fa: "\<forall>i<?M. isfinite (alt ! i) \<longleftrightarrow> \<not> isnan (alt ! i)"
    and fla: "\<forall>i<?M. isfinite (lat ! i) \<longleftrightarrow> \<not> isnan (alt ! i)"
    and flo: "\<forall>i<?M. isfinite (lon ! i) \<longleftrightarrow> \<not> isnan (alt ! i)"
    using gates by (auto simp: aligned_gate_def) (metis isfinite.simps(4) isnan.elims(2))+
  have glat: "finite_part lat = map (\<lambda>i. the_real (lat ! i)) ?P"
    by (rule finite_part_present[OF len(1) fla])
  have glon: "finite_part lon = map (\<lambda>i. the_real (lon ! i)) ?P"
    by (rule finite_part_present[OF len(2) flo])
  have galt: "map (\<lambda>a. a / 1000) (finite_part alt) = map (\<lambda>i. the_real (alt ! i) / 1000) ?P"
    using finite_part_present[OF refl fa] by simp
  have pts: "broadcast3 (finite_part lat) (finite_part lon) (map (\<lambda>a. a / 1000) (finite_part alt))
               = Inr (map (position lat lon alt) ?P)"
    unfolding glat glon galt broadcast3_same by (simp add: position_def[abs_def])
  define mlat' where "mlat' = map (\<lambda>i. if isnan (alt ! i) then NaN
                        else Fin (fst (apex_at geo2apex time lat lon alt i))) [0..<?M]"
  define mlon' where "mlon' = map (\<lambda>i. if isnan (alt ! i) then NaN
                        else Fin (snd (apex_at geo2apex time lat lon alt i))) [0..<?M]"
  define d1 where "d1 = map (\<lambda>i. if isnan (alt ! i) then nanvec
                        else fin3 (fst (base_at basevectors_apex time lat lon alt i))) [0..<?M]"
  define d2 where "d2 = map (\<lambda>i. if isnan (alt ! i) then nanvec
                        else fin3 (fst (snd (base_at basevectors_apex time lat lon alt i)))) [0..<?M]"
  define d3 where "d3 = map (\<lambda>i. if isnan (alt ! i) then nanvec
                        else fin3 (snd (snd (base_at basevectors_apex time lat lon alt i)))) [0..<?M]"
  have i1: "np_insert (map (Fin \<circ> fst) (map (\<lambda>(la, lo, al). geo2apex (fst (time ! 0)) la lo al)
               (map (position lat lon alt) ?P))) (replace_nans_of alt) NaN = Inr mlat'"
    using insert_restores[of "\<lambda>i. Fin (fst (apex_at geo2apex time lat lon alt i))" alt NaN]
    by (simp add: mlat'_def apex_at_def comp_def)
  have i2: "np_insert (map (Fin \<circ> snd) (map (\<lambda>(la, lo, al). geo2apex (fst (time ! 0)) la lo al)
               (map (position lat lon alt) ?P))) (replace_nans_of alt) NaN = Inr mlon'"
    using insert_restores[of "\<lambda>i. Fin (snd (apex_at geo2apex time lat lon alt i))" alt NaN]
    by (simp add: mlon'_def apex_at_def comp_def)
  have i3: "np_insert (map (\<lambda>(d1, d2, d3). fin3 d1)
               (map (\<lambda>(la, lo, al). basevectors_apex (fst (time ! 0)) la lo al)
               (map (position lat lon alt) ?P))) (replace_nans_of alt) nanvec = Inr d1"
    using insert_restores[of "\<lambda>i. fin3 (fst (base_at basevectors_apex time lat lon alt i))"
            alt nanvec]
    by (simp add: d1_def base_at_def comp_def split_def)
  have i4: "np_insert (map (\<lambda>(d1, d2, d3). fin3 d2)
               (map (\<lambda>(la, lo, al). basevectors_apex (fst (time ! 0)) la lo al)
               (map (position lat lon alt) ?P))) (replace_nans_of alt) nanvec = Inr d2"
    using insert_restores[of "\<lambda>i. fin3 (fst (snd (base_at basevectors_apex time lat lon alt i)))"
            alt nanvec]
    by (simp add: d2_def base_at_def comp_def split_def)
  have i5: "np_insert (map (\<lambda>(d1, d2, d3). fin3 d3)
               (map (\<lambda>(la, lo, al). basevectors_apex (fst (time ! 0)) la lo al)
               (map (position lat lon alt) ?P))) (replace_nans_of alt) nanvec = Inr d3"
    using insert_restores[of "\<lambda>i. fin3 (snd (snd (base_at basevectors_apex time lat lon alt i)))"
            alt nanvec]
    by (simp add: d3_def base_at_def comp_def split_def)
  have ld: "length d1 = ?M" "length d2 = ?M" "length d3 = ?M"
    by (simp_all add: d1_def d2_def d3_def)
  have st: "stack3 ke kn kz = Inr (zip ke (zip kn kz))"
    using len by (simp add: stack3_def)
  have bc: "broadcast2 (zip ke (zip kn kz)) (zip d1 (zip d2 d3))
              = Inr (zip (zip ke (zip kn kz)) (zip d1 (zip d2 d3)))"
    using len ld by (simp add: broadcast2_def)
  define out where "out = \<lparr> self_mlat = mlat', self_mlon = mlon',
      self_A = map (\<lambda>(k, e1, e2, e3). (dot3 k e1, dot3 k e2, dot3 k e3))
                 (zip (zip ke (zip kn kz)) (zip d1 (zip d2 d3))),
      self_D = map (\<lambda>(e1, e2). case cross3 e1 e2 of (c1, c2, c3) \<Rightarrow>
                             fl_sqrt (fl_sum [fl_sq c1, fl_sq c2, fl_sq c3])) (zip d1 d2) \<rparr>"
  have eq: "transform geo2apex basevectors_apex time lat lon alt ke kn kz = Inr out"
    using time
    by (simp only: transform_def Let_def pts ebind_def sum.case i1 i2 i3 i4 i5 st bc out_def
          if_False)
  have lens: "length (self_mlat out) = ?M" "length (self_mlon out) = ?M"
    "length (self_A out) = ?M" "length (self_D out) = ?M"
    using len ld by (simp_all add: out_def mlat'_def mlon'_def)
  have vals: "\<forall>i<?M.
                 (isnan (alt ! i) \<longrightarrow>
                    self_mlat out ! i = NaN \<and> self_mlon out ! i = NaN
                    \<and> self_A out ! i = nanvec \<and> self_D out ! i = NaN)
                 \<and> (\<not> isnan (alt ! i) \<longrightarrow>
                    self_mlat out ! i = Fin (fst (apex_at geo2apex time lat lon alt i))
                    \<and> self_mlon out ! i = Fin (snd (apex_at geo2apex time lat lon alt i))
                    \<and> self_A out ! i
                        = gate_A (ke ! i, kn ! i, kz ! i)
                            (base_at basevectors_apex time lat lon alt i)
                    \<and> self_D out ! i = gate_D (base_at basevectors_apex time lat lon alt i))"
  proof (intro allI impI)
    fix i assume i: "i < ?M"
    show "(isnan (alt ! i) \<longrightarrow>
                    self_mlat out ! i = NaN \<and> self_mlon out ! i = NaN
                    \<and> self_A out ! i = nanvec \<and> self_D out ! i = NaN)
                 \<and> (\<not> isnan (alt ! i) \<longrightarrow>
                    self_mlat out ! i = Fin (fst (apex_at geo2apex time lat lon alt i))
                    \<and> self_mlon out ! i = Fin (snd (apex_at geo2apex time lat lon alt i))
                    \<and> self_A out ! i
                        = gate_A (ke ! i, kn ! i, kz ! i)
                            (base_at basevectors_apex time lat lon alt i)
                    \<and> self_D out ! i = gate_D (base_at basevectors_apex time lat lon alt i))"
      using i len ld
      by (simp add: out_def mlat'_def mlon'_def d1_def d2_def d3_def dot3_nanvec cross3_nanvec
            fl_sq_def fl_sum_def gate_A_def gate_D_def split_def nanvec_def)
  qed
  from eq pts lens vals show ?thesis by blast
qed


lemma all_less3: "(\<forall>i<3. P i) \<longleftrightarrow> P (0::nat) \<and> P 1 \<and> P 2"
  by (auto simp: numeral_3_eq_3 numeral_2_eq_2 less_Suc_eq)

lemma ex_less3: "(\<exists>i<3. P i) \<longleftrightarrow> P (0::nat) \<or> P 1 \<or> P 2"
  by (auto simp: numeral_3_eq_3 numeral_2_eq_2 less_Suc_eq)

text \<open>
  C6, as stated, fails: the positions to reinsert are those where the altitude is NaN,
  while each coordinate array is stripped of its own non-finite entries. With an infinite
  altitude at a gate, or a finite longitude at a gate whose altitude is NaN, the arrays
  returned by the model and the reinserted NaN no longer add up to the number of gates,
  and \<^verbatim>\<open>einsum\<close> raises \<^verbatim>\<open>ValueError\<close>.
\<close>

theorem transform_misaligned_counterexample:
  "transform flat_geo2apex unit_basevectors [(0, 60)]
     [NaN, NaN, Fin 66] [NaN, NaN, Fin (- 148)] [NaN, PInf, Fin 200000]
     [NaN, NaN, Fin 0] [NaN, NaN, Fin 0] [NaN, NaN, Fin 1] = Inl ValueError
   \<and> transform flat_geo2apex unit_basevectors [(0, 60)]
       [NaN, Fin 66] [Fin (- 147), Fin (- 148)] [NaN, Fin 200000]
       [NaN, Fin 0] [NaN, Fin 0] [NaN, Fin 1] = Inl ValueError"
  by (simp add: transform_def replace_nans_of_def finite_part_def map_filter_def broadcast3_def
        broadcast2_def stretch_def ebind_def np_insert_def stack3_def upt3 upt2 upt_Suc2 upt_Suc3
        Let_def flat_geo2apex_def unit_basevectors_def)

theorem transform_keeps_alignment_witness:
  "[(0::real, 60::real)] \<noteq> []
   \<and> length lat3 = length alt3 \<and> length lon3 = length alt3
   \<and> length zero3 = length alt3 \<and> length up3 = length alt3 \<and> length alt3 = 3
   \<and> aligned_gate (lat3 ! 0) (lon3 ! 0) (alt3 ! 0)
   \<and> aligned_gate (lat3 ! 1) (lon3 ! 1) (alt3 ! 1)
   \<and> aligned_gate (lat3 ! 2) (lon3 ! 2) (alt3 ! 2)
   \<and> isnan (alt3 ! 1)
   \<and> (\<exists>out.
           transform flat_geo2apex unit_basevectors [(0, 60)] lat3 lon3 alt3 zero3 zero3 up3
             = Inr out
           \<and> length (self_mlat out) = length alt3
           \<and> self_mlat out ! 0 = Fin 65 \<and> self_mlat out ! 1 = NaN \<and> self_mlat out ! 2 = Fin 66
           \<and> self_mlon out ! 1 = NaN \<and> self_A out ! 1 = nanvec \<and> self_D out ! 1 = NaN
           \<and> self_A out ! 2
               = gate_A (zero3 ! 2, zero3 ! 2, up3 ! 2)
                   (base_at unit_basevectors [(0, 60)] lat3 lon3 alt3 2))"
proof -
  have l: "length lat3 = length alt3" "length lon3 = length alt3"
    "length zero3 = length alt3" "length up3 = length alt3" and l3: "length alt3 = 3"
    by (simp_all add: lat3_def lon3_def alt3_def zero3_def up3_def)
  have g3: "aligned_gate (lat3 ! 0) (lon3 ! 0) (alt3 ! 0)"
    "aligned_gate (lat3 ! 1) (lon3 ! 1) (alt3 ! 1)"
    "aligned_gate (lat3 ! 2) (lon3 ! 2) (alt3 ! 2)"
    by (simp_all add: aligned_gate_def lat3_def lon3_def alt3_def)
  have g: "\<forall>i<length alt3. aligned_gate (lat3 ! i) (lon3 ! i) (alt3 ! i)"
    unfolding l3 all_less3 using g3 by simp
  have a: "apex_at flat_geo2apex [(0, 60)] lat3 lon3 alt3 0 = (65, - 147)"
    "apex_at flat_geo2apex [(0, 60)] lat3 lon3 alt3 2 = (66, - 148)"
    by (simp_all add: apex_at_def position_def flat_geo2apex_def lat3_def lon3_def alt3_def)
  have n: "isnan (alt3 ! 1)" "\<not> isnan (alt3 ! 0)" "\<not> isnan (alt3 ! 2)"
    by (simp_all add: alt3_def)
  have s: "\<exists>i<length alt3. isnan (alt3 ! i)"
    unfolding l3 ex_less3 using n by simp
  from transform_keeps_alignment[of "[(0, 60)]" lat3 alt3 lon3 zero3 zero3 up3
         flat_geo2apex unit_basevectors, OF _ l(1) l(2) l(3) l(3) l(4) g s]
  obtain out where out:
    "transform flat_geo2apex unit_basevectors [(0, 60)] lat3 lon3 alt3 zero3 zero3 up3 = Inr out"
    "length (self_mlat out) = length alt3"
    "\<forall>i<length alt3.
         (isnan (alt3 ! i) \<longrightarrow>
            self_mlat out ! i = NaN \<and> self_mlon out ! i = NaN
            \<and> self_A out ! i = nanvec \<and> self_D out ! i = NaN)
         \<and> (\<not> isnan (alt3 ! i) \<longrightarrow>
            self_mlat out ! i = Fin (fst (apex_at flat_geo2apex [(0, 60)] lat3 lon3 alt3 i))
            \<and> self_mlon out ! i = Fin (snd (apex_at flat_geo2apex [(0, 60)] lat3 lon3 alt3 i))
            \<and> self_A out ! i
                = gate_A (zero3 ! i, zero3 ! i, up3 ! i)
                    (base_at unit_basevectors [(0, 60)] lat3 lon3 alt3 i)
            \<and> self_D out ! i = gate_D (base_at unit_basevectors [(0, 60)] lat3 lon3 alt3 i))"
    by auto
  from out(3) l3 have "self_mlat out ! 0 = Fin 65" "self_mlat out ! 1 = NaN"
    "self_mlat out ! 2 = Fin 66" "self_mlon out ! 1 = NaN" "self_A out ! 1 = nanvec"
    "self_D out ! 1 = NaN"
    "self_A out ! 2 = gate_A (zero3 ! 2, zero3 ! 2, up3 ! 2)
                   (base_at unit_basevectors [(0, 60)] lat3 lon3 alt3 2)"
    using n a by (simp_all add: all_less3)
  with out(1,2) l l3 g3 n(1) show ?thesis by blast
qed

end
